theory Spec2Isabelle
  imports Complex_Main
begin

section \<open>Errors and task assignment\<close>

text \<open>
  The exceptions the training binary raises or lets through, as values. The last
  constructor stands for any exception raised inside a collaborator the binary only
  calls (TensorFlow, the model, the readers).
\<close>

datatype error =
    StandardError string
  | ValueError string
  | IOError string
  | FlagsError string
  | TypeError
  | StopIteration
  | ZeroDivisionError
  | OutOfRangeError
  | KeyError string
  | CollaboratorError string

text \<open>
  \<^verbatim>\<open>task = type("TaskSpec", (object,), task_data)\<close>: an object with the attributes
  \<^verbatim>\<open>type\<close> and \<^verbatim>\<open>index\<close> of the task dictionary.
\<close>

record TaskSpec =
  type :: string
  index :: int

text \<open>A cluster: role name and the ordered list of its endpoints.\<close>

type_synonym ClusterSpec = "(string \<times> string list) list"

record Trainer =
  cluster :: "ClusterSpec option"
  task :: TaskSpec
  is_master :: bool
  train_dir :: string
  log_device_placement :: bool

record ParameterServer =
  ps_cluster :: "ClusterSpec option"
  ps_task :: TaskSpec

text \<open>\<^verbatim>\<open>"/job:%s/task:%s" % (task.type, task.index)\<close>, with the formatting of the index
  taken as a parameter.\<close>

definition task_as_string :: "(int \<Rightarrow> string) \<Rightarrow> TaskSpec \<Rightarrow> string" where
  "task_as_string str t = ''/job:'' @ type t @ ''/task:'' @ str (index t)"

text \<open>
  \<^verbatim>\<open>Trainer.__init__\<close>: the fields are set, \<^verbatim>\<open>is_master\<close> is computed from the task, and
  then the replica check runs on the computed flag.
\<close>

definition Trainer_init ::
  "ClusterSpec option \<Rightarrow> TaskSpec \<Rightarrow> string \<Rightarrow> bool \<Rightarrow> error + Trainer" where
  "Trainer_init c t dir ldp =
     (let self = \<lparr> cluster = c, task = t,
                   is_master = (type t = ''master'' \<and> index t = 0),
                   train_dir = dir, log_device_placement = ldp \<rparr>
      in if is_master self \<and> index (task self) > 0
         then Inl (StandardError ''%s: Only one replica of master expected'')
         else Inr self)"

definition ParameterServer_init :: "ClusterSpec option \<Rightarrow> TaskSpec \<Rightarrow> ParameterServer" where
  "ParameterServer_init c t = \<lparr> ps_cluster = c, ps_task = t \<rparr>"

text \<open>
  The process configuration read from \<^verbatim>\<open>TF_CONFIG\<close>: both entries may be missing. An
  empty cluster dictionary is falsy in Python, and so is a missing task.
\<close>

record environment =
  env_cluster :: "ClusterSpec option"
  env_task :: "TaskSpec option"

datatype role = RunTrainer Trainer | RunParameterServer ParameterServer

text \<open>
  The dispatch of \<^verbatim>\<open>main\<close>: which object is constructed, before its \<^verbatim>\<open>run\<close> method is
  called. The cluster is \<^verbatim>\<open>None\<close> unless the configuration holds a non-empty cluster
  dictionary; the task defaults to master 0.
\<close>

definition load_cluster :: "environment \<Rightarrow> ClusterSpec option" where
  "load_cluster env =
     (case env_cluster env of
        None \<Rightarrow> None
      | Some cluster_data \<Rightarrow> if cluster_data \<noteq> [] then Some cluster_data else None)"

definition load_task :: "environment \<Rightarrow> TaskSpec" where
  "load_task env =
     (case env_task env of
        None \<Rightarrow> \<lparr> type = ''master'', index = 0 \<rparr>
      | Some task_data \<Rightarrow> task_data)"

definition main_dispatch :: "environment \<Rightarrow> string \<Rightarrow> bool \<Rightarrow> error + role" where
  "main_dispatch env dir ldp =
     (let c = load_cluster env;
          t = load_task env
      in if c = None \<or> type t = ''master'' \<or> type t = ''worker''
         then (case Trainer_init c t dir ldp of
                 Inl e \<Rightarrow> Inl e
               | Inr tr \<Rightarrow> Inr (RunTrainer tr))
         else if type t = ''ps''
         then Inr (RunParameterServer (ParameterServer_init c t))
         else Inl (ValueError ''%s: Invalid task_type: %s.''))"

section \<open>Label reforming and label loss of \<^verbatim>\<open>build_graph\<close>\<close>

text \<open>
  Tensors of shape \<^verbatim>\<open>[batch, classes]\<close> are lists of rows. The 32-bit floating-point
  arithmetic of the graph is idealised as exact arithmetic over the reals; the constant
  \<^verbatim>\<open>1e-6\<close> is the rational \<open>1 / 1000000\<close>.
\<close>

definition clip_by_value :: "real \<Rightarrow> real \<Rightarrow> real \<Rightarrow> real" where
  "clip_by_value clip_value_min clip_value_max x = max clip_value_min (min clip_value_max x)"

text \<open>
  One row of lines 305 to 309: the cast of the labels, the two row sums
  (\<^verbatim>\<open>reduce_sum(axis=1, keep_dims=True)\<close>), the scaling of the distilled row, the sum with the
  labels and the clipping.
\<close>

definition reform_row :: "real \<Rightarrow> bool list \<Rightarrow> real list \<Rightarrow> real list" where
  "reform_row p labels_row distill_row =
     (let float_labels = map of_bool labels_row;
          sum_float_labels = sum_list float_labels;
          sum_distill_labels = sum_list distill_row + 1 / 1000000
      in map (clip_by_value 0 1)
           (map2 (\<lambda>l d. l + d * (sum_float_labels / sum_distill_labels * p))
              float_labels distill_row))"

text \<open>
  The element-wise operations need equal shapes; TensorFlow rejects anything else when the
  graph is built.
\<close>

definition same_shape :: "'a list list \<Rightarrow> 'b list list \<Rightarrow> bool" where
  "same_shape a b = (map length a = map length b)"

definition reform_labels :: "real \<Rightarrow> bool list list \<Rightarrow> real list list \<Rightarrow> error + real list list" where
  "reform_labels p labels_batch distill_labels_batch =
     (if same_shape labels_batch distill_labels_batch
      then Inr (map2 (reform_row p) labels_batch distill_labels_batch)
      else Inl (ValueError ''Dimensions must be equal''))"

text \<open>
  The scenario of the specification, in its words: the hybrid label vector is
  \<open>labels + distilled * 2\<close>, clipped to \<open>[0, 1]\<close>.
\<close>

definition spec_blend_scenario :: "bool list list \<Rightarrow> real list list \<Rightarrow> real list list" where
  "spec_blend_scenario labels_batch distill_labels_batch =
     map2 (\<lambda>ls ds. map2 (\<lambda>l d. clip_by_value 0 1 (of_bool l + d * 2)) ls ds)
       labels_batch distill_labels_batch"

text \<open>
  The dictionary returned by \<^verbatim>\<open>model.create_model\<close>: the predictions, and the optional
  entries \<^verbatim>\<open>loss\<close>, \<^verbatim>\<open>support_predictions\<close> and \<^verbatim>\<open>regularization_loss\<close>.
\<close>

record 'p model_result =
  predictions :: 'p
  loss :: "real option"
  support_predictions :: "'p option"
  regularization_loss :: "real option"

text \<open>
  The loss object found by name. Its \<^verbatim>\<open>calculate_loss\<close> is called with the predictions and
  the labels, or, with multitask, with the support predictions as well.
\<close>

record ('p, 'lab, 'w) label_loss_fn =
  calculate_loss :: "'p \<Rightarrow> 'lab \<Rightarrow> 'w option \<Rightarrow> real"
  calculate_loss_support :: "'p \<Rightarrow> 'p \<Rightarrow> 'lab \<Rightarrow> 'w option \<Rightarrow> real"

text \<open>The command-line flags the modelled code reads.\<close>

record FLAGS =
  distillation_features :: bool
  distillation_type :: int
  distillation_percent :: real
  multitask :: bool
  reweight :: bool
  frame_features :: bool
  feature_names :: string
  feature_sizes :: string
  model :: string
  label_loss :: string
  optimizer :: string
  feature_transformer :: string
  data_augmenter :: string
  train_data_pattern :: string
  max_steps :: "int option"
  recall_at_n :: int

text \<open>
  The defaults of the flag definitions (lines 40 to 131). The file defines no flag for
  the feature transformer and the data augmenter; the defaults of the parameters of
  \<^verbatim>\<open>build_graph\<close> stand for them.
\<close>

definition default_FLAGS :: FLAGS where
  "default_FLAGS =
     \<lparr> distillation_features = False,
       distillation_type = 0,
       distillation_percent = 0,
       multitask = False,
       reweight = False,
       frame_features = False,
       feature_names = ''mean_rgb'',
       feature_sizes = ''1024'',
       model = ''LogisticModel'',
       label_loss = ''CrossEntropyLoss'',
       optimizer = ''AdamOptimizer'',
       feature_transformer = ''DefaultTransformer'',
       data_augmenter = ''DefaultAugmenter'',
       train_data_pattern = [],
       max_steps = None,
       recall_at_n = 100 \<rparr>"

text \<open>
  Lines 358 to 399: the label loss. \<^verbatim>\<open>distill_labels_batch\<close> is only read where
  \<^verbatim>\<open>distillation_features\<close> is set, which is where the source defines it.
\<close>

definition build_graph_label_loss ::
  "FLAGS \<Rightarrow> ('p, 'lab, 'w) label_loss_fn \<Rightarrow> 'p model_result \<Rightarrow> 'lab \<Rightarrow> 'lab \<Rightarrow> 'w
     \<Rightarrow> error + real" where
  "build_graph_label_loss fl fn result labels_batch distill_labels_batch video_weights =
     (case loss result of
        Some l \<Rightarrow> Inr l
      | None \<Rightarrow>
          (let video_weights_batch = (if reweight fl then Some video_weights else None);
               p = distillation_percent fl
           in if multitask fl then
                (case support_predictions result of
                   None \<Rightarrow> Inl (KeyError ''support_predictions'')
                 | Some sp \<Rightarrow>
                     if distillation_features fl \<and> distillation_type fl = 1 then
                       (if p \<le> 0 then
                          Inr (calculate_loss_support fn (predictions result) sp labels_batch video_weights_batch)
                        else if p \<ge> 1 then
                          Inr (calculate_loss_support fn (predictions result) sp distill_labels_batch video_weights_batch)
                        else
                          Inr (calculate_loss_support fn (predictions result) sp labels_batch video_weights_batch * (1 - p)
                               + calculate_loss_support fn (predictions result) sp distill_labels_batch video_weights_batch * p))
                     else if distillation_features fl \<and> distillation_type fl = 2 then
                       Inr (calculate_loss_support fn (predictions result) sp distill_labels_batch video_weights_batch)
                     else
                       Inr (calculate_loss_support fn (predictions result) sp labels_batch video_weights_batch))
              else
                (if distillation_features fl \<and> distillation_type fl = 1 then
                   (if p \<le> 0 then
                      Inr (calculate_loss fn (predictions result) labels_batch video_weights_batch)
                    else if p \<ge> 1 then
                      Inr (calculate_loss fn (predictions result) distill_labels_batch video_weights_batch)
                    else
                      Inr (calculate_loss fn (predictions result) labels_batch video_weights_batch * (1 - p)
                           + calculate_loss fn (predictions result) distill_labels_batch video_weights_batch * p))
                 else if distillation_features fl \<and> distillation_type fl = 2 then
                   Inr (calculate_loss fn (predictions result) distill_labels_batch video_weights_batch)
                 else
                   Inr (calculate_loss fn (predictions result) labels_batch video_weights_batch))))"

text \<open>
  The interpolation of the replace mode, in the words of the specification.
\<close>

definition spec_replace :: "real \<Rightarrow> real \<Rightarrow> real \<Rightarrow> real" where
  "spec_replace p loss_labels loss_distilled =
     (if p \<le> 0 then loss_labels
      else if p \<ge> 1 then loss_distilled
      else (1 - p) * loss_labels + p * loss_distilled)"

section \<open>Class lookup by name\<close>

text \<open>
  What \<^verbatim>\<open>getattr(module, name, None)\<close> can find in a module: a class, with its name and the
  names of the classes it inherits from (itself included), or any other object, of which
  only the truth value matters.
\<close>

datatype pyobj = PyClass string "string list" | PyObject bool

type_synonym pymodule = "string \<rightharpoonup> pyobj"

definition getattr :: "pymodule \<Rightarrow> string \<Rightarrow> pyobj option" where
  "getattr m name = m name"

fun truthy :: "pyobj option \<Rightarrow> bool" where
  "truthy None = False"
| "truthy (Some (PyClass n supers)) = True"
| "truthy (Some (PyObject b)) = b"

text \<open>\<^verbatim>\<open>issubclass\<close> raises \<^verbatim>\<open>TypeError\<close> when its first argument is not a class.\<close>

fun issubclass :: "pyobj \<Rightarrow> string \<Rightarrow> error + bool" where
  "issubclass (PyClass n supers) expected_superclass = Inr (expected_superclass \<in> set supers)"
| "issubclass (PyObject b) expected_superclass = Inl TypeError"

text \<open>The loop of \<^verbatim>\<open>validate_class_name\<close> over the candidates.\<close>

fun validate_candidates :: "string \<Rightarrow> string \<Rightarrow> string \<Rightarrow> pyobj option list \<Rightarrow> error + bool" where
  "validate_candidates flag_value category expected_superclass [] =
     Inl (FlagsError (''Unable to find '' @ category @ '' '' @ flag_value))"
| "validate_candidates flag_value category expected_superclass (candidate # rest) =
     (if \<not> truthy candidate
      then validate_candidates flag_value category expected_superclass rest
      else (case issubclass (the candidate) expected_superclass of
              Inl e \<Rightarrow> Inl e
            | Inr False \<Rightarrow>
                Inl (FlagsError (category @ '' '' @ flag_value @ '' does not inherit from ''
                                 @ expected_superclass))
            | Inr True \<Rightarrow> Inr True))"

definition validate_class_name :: "string \<Rightarrow> string \<Rightarrow> pymodule list \<Rightarrow> string \<Rightarrow> error + bool" where
  "validate_class_name flag_value category modules expected_superclass =
     validate_candidates flag_value category expected_superclass
       (map (\<lambda>m. getattr m flag_value) modules)"

text \<open>\<^verbatim>\<open>next(a for a in modules if a)\<close>: the first truthy entry, or \<^verbatim>\<open>StopIteration\<close>.\<close>

fun next_truthy :: "pyobj option list \<Rightarrow> error + pyobj" where
  "next_truthy [] = Inl StopIteration"
| "next_truthy (a # rest) = (if truthy a then Inr (the a) else next_truthy rest)"

definition find_class_by_name :: "string \<Rightarrow> pymodule list \<Rightarrow> error + pyobj" where
  "find_class_by_name name modules =
     next_truthy (map (\<lambda>m. getattr m name) modules)"

text \<open>The modules \<^verbatim>\<open>build_model\<close> searches.\<close>

record registry =
  frame_level_models :: pymodule
  video_level_models :: pymodule
  losses :: pymodule
  tf_train :: pymodule
  feature_transform :: pymodule
  data_augmentation :: pymodule

section \<open>The world of one training process\<close>

datatype level = INFO | ERROR

record step_report =
  report_global_step :: int
  report_hit_at_one :: real
  report_perr :: real
  report_gap :: real
  report_recall_at_n :: int
  report_recall :: string
  report_loss :: real

datatype log_message =
    Removing_existing_train_directory
  | Failed_to_delete_directory string
  | Flag_start_new_model_is_set
  | No_checkpoint_file_found
  | Starting_trainer_within_cluster
  | Using_batch_size
  | Number_of_training_files nat
  | Built_graph
  | Starting_managed_session
  | Entering_training_loop
  | Training_step step_report
  | Done_training_max_steps
  | Done_training_epoch_limit
  | Exited_training_loop

datatype summary_tag =
    Training_Hit1
  | Training_Perr
  | Training_GAP
  | Examples_Second
  | Training_Recall int

text \<open>
  What a process can change: the files, the lines it logged, the records it handed to
  the summary writer (tag, value, global step), and how many times a session run that
  holds the training operation has returned.
\<close>

record 'fs world =
  files :: 'fs
  logging :: "(level \<times> log_message) list"
  summary_writer :: "(summary_tag \<times> real \<times> int) list"
  train_ops_run :: nat

text \<open>
  A statement returns, raises, or is still running when the recorded behaviour of the
  environment ends (only the training loop can be).
\<close>

datatype 'a outcome = Return 'a | Raise error | Running

type_synonym ('a, 'fs) proc = "'fs world \<Rightarrow> 'a outcome \<times> 'fs world"

definition seq :: "('a, 'fs) proc \<Rightarrow> ('a \<Rightarrow> ('b, 'fs) proc) \<Rightarrow> ('b, 'fs) proc" where
  "seq m f w =
     (case m w of
        (Return x, w') \<Rightarrow> f x w'
      | (Raise e, w') \<Rightarrow> (Raise e, w')
      | (Running, w') \<Rightarrow> (Running, w'))"

definition ret :: "'a \<Rightarrow> ('a, 'fs) proc" where
  "ret x w = (Return x, w)"

definition lift :: "error + 'a \<Rightarrow> ('a, 'fs) proc" where
  "lift r w = (case r of Inl e \<Rightarrow> (Raise e, w) | Inr x \<Rightarrow> (Return x, w))"

definition check :: "error option \<Rightarrow> (unit, 'fs) proc" where
  "check r w = (case r of Some e \<Rightarrow> (Raise e, w) | None \<Rightarrow> (Return (), w))"

definition logging_info :: "log_message \<Rightarrow> (unit, 'fs) proc" where
  "logging_info msg w = (Return (), w\<lparr>logging := logging w @ [(INFO, msg)]\<rparr>)"

definition logging_error :: "log_message \<Rightarrow> (unit, 'fs) proc" where
  "logging_error msg w = (Return (), w\<lparr>logging := logging w @ [(ERROR, msg)]\<rparr>)"

definition add_summary :: "summary_tag \<Rightarrow> real \<Rightarrow> int \<Rightarrow> (unit, 'fs) proc" where
  "add_summary tag v global_step_val w =
     (Return (), w\<lparr>summary_writer := summary_writer w @ [(tag, v, global_step_val)]\<rparr>)"

section \<open>Collaborators\<close>

datatype reader =
    YT8MFrameDistillationFeatureReader "string list" "int list"
  | YT8MAggregatedDistillationFeatureReader "string list" "int list"
  | YT8MFrameFeatureReader "string list" "int list"
  | YT8MAggregatedFeatureReader "string list" "int list"

text \<open>
  The code outside this file, each part a function of what it is given. Those that can
  raise return the exception. \<open>DeleteRecursively\<close> returns the files it leaves, also when it
  fails part of the way.
\<close>

record 'fs collaborators =
  DeleteRecursively :: "'fs \<Rightarrow> string \<Rightarrow> error option \<times> 'fs"
  Glob :: "'fs \<Rightarrow> string \<Rightarrow> string list"
  latest_checkpoint :: "'fs \<Rightarrow> string \<Rightarrow> string option"
  Server :: "ClusterSpec \<Rightarrow> TaskSpec \<Rightarrow> error + string"
  GetListOfFeatureNamesAndSizes :: "string \<Rightarrow> string \<Rightarrow> error + string list \<times> int list"
  instantiate :: "pyobj \<Rightarrow> error + pyobj"
  shuffle_batch_join :: "reader \<Rightarrow> string list \<Rightarrow> error option"
  graph_ops :: "reader \<Rightarrow> pyobj \<Rightarrow> pyobj \<Rightarrow> pyobj \<Rightarrow> pyobj \<Rightarrow> pyobj \<Rightarrow> error option"
  managed_session :: "string \<Rightarrow> error option"
  restore :: "string \<Rightarrow> error option"
  assign_weights :: "error option"

text \<open>The functions of \<^verbatim>\<open>eval_util\<close>, and the formatting \<^verbatim>\<open>"%.2f" % x\<close>.\<close>

record eval_util =
  calculate_hit_at_one :: "real list list \<Rightarrow> real list list \<Rightarrow> real"
  calculate_precision_at_equal_recall_rate :: "real list list \<Rightarrow> real list list \<Rightarrow> real"
  calculate_recall_at_n :: "real list list \<Rightarrow> real list list \<Rightarrow> int \<Rightarrow> real"
  calculate_gap :: "real list list \<Rightarrow> real list list \<Rightarrow> real"
  format_2f :: "real \<Rightarrow> string"

section \<open>Checkpoint directory\<close>

text \<open>
  \<^verbatim>\<open>Trainer.remove_training_directory\<close>: the bare \<^verbatim>\<open>except\<close> catches whatever the deletion
  raises and logs an error.
\<close>

definition remove_training_directory ::
  "'fs collaborators \<Rightarrow> Trainer \<Rightarrow> string \<Rightarrow> (unit, 'fs) proc" where
  "remove_training_directory tf self dir w =
     (case seq (logging_info Removing_existing_train_directory)
             (\<lambda>_ w1. case DeleteRecursively tf (files w1) dir of
                        (None, fs) \<Rightarrow> (Return (), w1\<lparr>files := fs\<rparr>)
                      | (Some e, fs) \<Rightarrow> (Raise e, w1\<lparr>files := fs\<rparr>)) w of
        (Raise e, w2) \<Rightarrow> logging_error (Failed_to_delete_directory dir) w2
      | r \<Rightarrow> r)"

text \<open>
  \<^verbatim>\<open>Trainer.get_latest_checkpoint\<close>. An empty checkpoint path is falsy, as \<^verbatim>\<open>None\<close> is.
\<close>

definition get_latest_checkpoint ::
  "'fs collaborators \<Rightarrow> Trainer \<Rightarrow> bool \<Rightarrow> string \<Rightarrow> (string option, 'fs) proc" where
  "get_latest_checkpoint tf self start_new_model dir =
     (if start_new_model
      then seq (logging_info Flag_start_new_model_is_set) (\<lambda>_. ret None)
      else (\<lambda>w. let latest = latest_checkpoint tf (files w) dir
                in if latest = None \<or> latest = Some []
                   then seq (logging_info No_checkpoint_file_found) (\<lambda>_. ret None) w
                   else ret latest w))"

text \<open>
  The resume decision of \<^verbatim>\<open>Trainer.run\<close>: lines 479, 480 and 484. Line 482, between them,
  starts the server and touches neither the directory nor the decision; it is part of
  \<open>Trainer_run\<close> below.
\<close>

definition resume_decision ::
  "'fs collaborators \<Rightarrow> Trainer \<Rightarrow> bool \<Rightarrow> (string option, 'fs) proc" where
  "resume_decision tf self start_new_model =
     seq (if is_master self \<and> start_new_model
          then remove_training_directory tf self (train_dir self)
          else ret ())
         (\<lambda>_. get_latest_checkpoint tf self start_new_model (train_dir self))"

section \<open>Server, input pipeline and graph\<close>

text \<open>
  \<^verbatim>\<open>start_server\<close>: an empty task type is rejected, then the server is created. The index
  of a task is an integer here, so the test for a missing index never fires.
\<close>

definition start_server :: "'fs collaborators \<Rightarrow> ClusterSpec \<Rightarrow> TaskSpec \<Rightarrow> error + string" where
  "start_server tf c t =
     (if type t = [] then Inl (ValueError ''%s: The task type must be specified.'')
      else Server tf c t)"

datatype device_fn = replica_device_setter string int | no_device

definition start_server_if_distributed ::
  "'fs collaborators \<Rightarrow> Trainer \<Rightarrow> (string \<times> device_fn, 'fs) proc" where
  "start_server_if_distributed tf self =
     (case cluster self of
        Some c \<Rightarrow>
          seq (logging_info Starting_trainer_within_cluster)
            (\<lambda>_. seq (lift (start_server tf c (task self)))
               (\<lambda>target. ret (target,
                   replica_device_setter (type (task self)) (index (task self)))))
      | None \<Rightarrow> ret ([], no_device))"

text \<open>
  \<^verbatim>\<open>get_input_data_tensors\<close>: the pattern is expanded against the files; no file is an
  \<^verbatim>\<open>IOError\<close>; otherwise the queue and the batch tensors are built by the collaborator.
\<close>

definition get_input_data_tensors ::
  "'fs collaborators \<Rightarrow> reader \<Rightarrow> string \<Rightarrow> (string list, 'fs) proc" where
  "get_input_data_tensors tf rd data_pattern =
     seq (logging_info Using_batch_size)
       (\<lambda>_ w. let fs = Glob tf (files w) data_pattern
              in if fs = []
                 then (Raise (IOError (''Unable to find training files. data_pattern=''
                                       @ data_pattern)), w)
                 else seq (logging_info (Number_of_training_files (length fs)))
                        (\<lambda>_. seq (check (shuffle_batch_join tf rd fs)) (\<lambda>_. ret fs)) w)"

text \<open>
  \<^verbatim>\<open>build_graph\<close>: the optimizer is constructed, the input tensors are requested (both
  branches of the source call \<^verbatim>\<open>get_input_data_tensors\<close> with the same arguments), and the
  rest of the graph (augmenter, transformer, model, loss, gradients) is built by the
  collaborator. What the label operations of that graph compute is \<open>reform_labels\<close> and
  \<open>build_graph_label_loss\<close> above.
\<close>

definition build_graph ::
  "'fs collaborators \<Rightarrow> FLAGS \<Rightarrow> reader \<Rightarrow> pyobj \<Rightarrow> pyobj \<Rightarrow> pyobj \<Rightarrow> pyobj \<Rightarrow> pyobj
     \<Rightarrow> (unit, 'fs) proc" where
  "build_graph tf fl rd mdl label_loss_fn optimizer_class transformer_class augmenter_class =
     seq (lift (instantiate tf optimizer_class))
       (\<lambda>opt. seq (get_input_data_tensors tf rd (train_data_pattern fl))
          (\<lambda>_. check (graph_ops tf rd mdl label_loss_fn opt transformer_class augmenter_class)))"

datatype saver = Saver

text \<open>\<^verbatim>\<open>Trainer.build_model\<close>: the reader, the five lookups by name, the graph.\<close>

definition build_model ::
  "'fs collaborators \<Rightarrow> FLAGS \<Rightarrow> registry \<Rightarrow> Trainer \<Rightarrow> (saver, 'fs) proc" where
  "build_model tf fl reg self =
     seq (lift (GetListOfFeatureNamesAndSizes tf (feature_names fl) (feature_sizes fl)))
     (\<lambda>(names, sizes).
        let rd = (if distillation_features fl
                  then (if frame_features fl
                        then YT8MFrameDistillationFeatureReader names sizes
                        else YT8MAggregatedDistillationFeatureReader names sizes)
                  else (if frame_features fl
                        then YT8MFrameFeatureReader names sizes
                        else YT8MAggregatedFeatureReader names sizes))
        in
     seq (lift (find_class_by_name (model fl) [frame_level_models reg, video_level_models reg]))
     (\<lambda>model_class.
     seq (lift (instantiate tf model_class))
     (\<lambda>mdl.
     seq (lift (find_class_by_name (label_loss fl) [losses reg]))
     (\<lambda>loss_class.
     seq (lift (instantiate tf loss_class))
     (\<lambda>label_loss_fn.
     seq (lift (find_class_by_name (optimizer fl) [tf_train reg]))
     (\<lambda>optimizer_class.
     seq (lift (find_class_by_name (feature_transformer fl) [feature_transform reg]))
     (\<lambda>transformer_class.
     seq (lift (find_class_by_name (data_augmenter fl) [data_augmentation reg]))
     (\<lambda>augmenter_class.
     seq (build_graph tf fl rd mdl label_loss_fn optimizer_class transformer_class augmenter_class)
     (\<lambda>_.
     seq (logging_info Built_graph)
     (\<lambda>_. ret Saver))))))))))"

section \<open>The training loop\<close>

text \<open>
  What the environment does in one pass of the loop: \<^verbatim>\<open>sv.should_stop()\<close> answers true, or
  it answers false and the session run either returns the global step, the loss, the
  predictions and the labels, or raises; with it the seconds measured around the run.
\<close>

datatype run_result =
    Fetched int real "real list list" "real list list"
  | Raised error

datatype iteration = Stop | Run run_result real

datatype loop_exit = should_stop | max_steps_reached | epoch_limit_reached

text \<open>Lines 542 to 578: the session run and, on the master, the metrics and records.\<close>

definition train_step ::
  "eval_util \<Rightarrow> FLAGS \<Rightarrow> Trainer \<Rightarrow> run_result \<Rightarrow> real \<Rightarrow> (unit, 'fs) proc" where
  "train_step ev fl self r seconds_per_batch w =
     (case r of
        Raised e \<Rightarrow> (Raise e, w)
      | Fetched global_step_val loss_val predictions_val labels_val \<Rightarrow>
          (let w1 = w\<lparr>train_ops_run := train_ops_run w + 1\<rparr>
           in if is_master self then
                (if seconds_per_batch = 0 then (Raise ZeroDivisionError, w1)
                 else
                   let examples_per_second = real (length labels_val) / seconds_per_batch;
                       hit_at_one = calculate_hit_at_one ev predictions_val labels_val;
                       perr = calculate_precision_at_equal_recall_rate ev predictions_val labels_val;
                       recall = ''N/A'';
                       (recall, w2) =
                         (if False
                          then (let recall = calculate_recall_at_n ev predictions_val labels_val
                                               (recall_at_n fl)
                                in (format_2f ev recall,
                                    snd (add_summary (Training_Recall (recall_at_n fl)) recall
                                           global_step_val w1)))
                          else (recall, w1));
                       gap = calculate_gap ev predictions_val labels_val
                   in seq (logging_info (Training_step
                              \<lparr> report_global_step = global_step_val,
                                report_hit_at_one = hit_at_one,
                                report_perr = perr,
                                report_gap = gap,
                                report_recall_at_n = recall_at_n fl,
                                report_recall = recall,
                                report_loss = loss_val \<rparr>))
                      (\<lambda>_. seq (add_summary Training_Hit1 hit_at_one global_step_val)
                      (\<lambda>_. seq (add_summary Training_Perr perr global_step_val)
                      (\<lambda>_. seq (add_summary Training_GAP gap global_step_val)
                      (\<lambda>_. add_summary Examples_Second examples_per_second global_step_val)))) w2)
              else (Return (), w1)))"

text \<open>
  The \<^verbatim>\<open>while\<close> loop, with the counter \<^verbatim>\<open>steps\<close>. When the recorded behaviour of the
  environment ends, the loop is still running.
\<close>

fun training_loop ::
  "eval_util \<Rightarrow> FLAGS \<Rightarrow> Trainer \<Rightarrow> int \<Rightarrow> iteration list \<Rightarrow> (loop_exit, 'fs) proc" where
  "training_loop ev fl self steps [] w = (Running, w)"
| "training_loop ev fl self steps (Stop # rest) w = (Return should_stop, w)"
| "training_loop ev fl self steps (Run r seconds_per_batch # rest) w =
     (let steps = steps + 1
      in case train_step ev fl self r seconds_per_batch w of
           (Return _, w1) \<Rightarrow>
             (case max_steps fl of
                None \<Rightarrow> training_loop ev fl self steps rest w1
              | Some limit \<Rightarrow>
                  if steps > limit
                  then seq (logging_info Done_training_max_steps) (\<lambda>_. ret max_steps_reached) w1
                  else training_loop ev fl self steps rest w1)
         | (Raise e, w1) \<Rightarrow> (Raise e, w1)
         | (Running, w1) \<Rightarrow> (Running, w1))"

text \<open>
  Lines 529 to 590: the \<^verbatim>\<open>try\<close> around the loop catches \<^verbatim>\<open>OutOfRangeError\<close> only; any
  other exception leaves \<^verbatim>\<open>run\<close>.
\<close>

definition run_training_loop ::
  "eval_util \<Rightarrow> FLAGS \<Rightarrow> Trainer \<Rightarrow> iteration list \<Rightarrow> (loop_exit, 'fs) proc" where
  "run_training_loop ev fl self script w =
     (case seq (logging_info Entering_training_loop)
             (\<lambda>_. training_loop ev fl self 0 script) w of
        (Raise OutOfRangeError, w1) \<Rightarrow>
          seq (logging_info Done_training_epoch_limit) (\<lambda>_. ret epoch_limit_reached) w1
      | r \<Rightarrow> r)"

text \<open>\<^verbatim>\<open>Trainer.run\<close>.\<close>

definition Trainer_run ::
  "'fs collaborators \<Rightarrow> eval_util \<Rightarrow> FLAGS \<Rightarrow> registry \<Rightarrow> Trainer \<Rightarrow> bool \<Rightarrow> iteration list
     \<Rightarrow> (loop_exit, 'fs) proc" where
  "Trainer_run tf ev fl reg self start_new_model script =
     seq (if is_master self \<and> start_new_model
          then remove_training_directory tf self (train_dir self)
          else ret ())
     (\<lambda>_.
     seq (start_server_if_distributed tf self)
     (\<lambda>(target, dev).
     seq (get_latest_checkpoint tf self start_new_model (train_dir self))
     (\<lambda>checkpoint.
     seq (build_model tf fl reg self)
     (\<lambda>sv_saver.
     seq (logging_info Starting_managed_session)
     (\<lambda>_.
     seq (check (managed_session tf target))
     (\<lambda>_.
     seq (case checkpoint of None \<Rightarrow> ret () | Some ckpt \<Rightarrow> check (restore tf ckpt))
     (\<lambda>_.
     seq (if reweight fl then check (assign_weights tf) else ret ())
     (\<lambda>_.
     seq (run_training_loop ev fl self script)
     (\<lambda>exit.
     seq (logging_info Exited_training_loop)
     (\<lambda>_. ret exit))))))))))"

section \<open>Notions used in the statements\<close>

text \<open>
  A statement of the start-up: it returns or raises (it is never left running), it runs
  no training operation and it leaves the files as they are.
\<close>

definition quiet :: "('a, 'fs) proc \<Rightarrow> bool" where
  "quiet m =
     (\<forall>w. fst (m w) \<noteq> Running
          \<and> train_ops_run (snd (m w)) = train_ops_run w
          \<and> files (snd (m w)) = files w)"

text \<open>A statement that, from the world \<open>w\<close>, raises without a training operation run.\<close>

definition fails_at :: "('a, 'fs) proc \<Rightarrow> 'fs world \<Rightarrow> bool" where
  "fails_at m w =
     ((\<exists>e. fst (m w) = Raise e) \<and> train_ops_run (snd (m w)) = train_ops_run w)"

text \<open>
  A pass of the loop that gets through: the supervisor does not stop, the session run
  returns, and on the master the measured time is not zero (the division for the
  examples per second would raise).
\<close>

fun completes :: "Trainer \<Rightarrow> iteration \<Rightarrow> bool" where
  "completes self Stop = False"
| "completes self (Run (Raised e) seconds_per_batch) = False"
| "completes self (Run (Fetched g l p y) seconds_per_batch) =
     (\<not> (is_master self \<and> seconds_per_batch = 0))"

text \<open>
  The step reports among logged lines, and the summary records with a recall tag.
\<close>

fun step_reports :: "(level \<times> log_message) list \<Rightarrow> step_report list" where
  "step_reports [] = []"
| "step_reports ((lv, Training_step r) # rest) = r # step_reports rest"
| "step_reports (line # rest) = step_reports rest"

fun is_recall_tag :: "summary_tag \<Rightarrow> bool" where
  "is_recall_tag (Training_Recall n) = True"
| "is_recall_tag tag = False"

definition recall_summaries ::
  "(summary_tag \<times> real \<times> int) list \<Rightarrow> (summary_tag \<times> real \<times> int) list" where
  "recall_summaries records = filter (\<lambda>record. is_recall_tag (fst record)) records"

text \<open>
  A sample environment for the concrete instances: the files are a list of paths, a
  pattern matches the path equal to it, the deletion of a directory that is not there
  fails, and every other collaborator succeeds.
\<close>

definition sample_collaborators :: "string list collaborators" where
  "sample_collaborators =
     \<lparr> DeleteRecursively =
         (\<lambda>fs dir. if dir \<in> set fs then (None, removeAll dir fs)
                   else (Some (CollaboratorError ''NotFoundError''), fs)),
       Glob = (\<lambda>fs pattern. filter (\<lambda>path. path = pattern) fs),
       latest_checkpoint =
         (\<lambda>fs dir. if dir \<in> set fs then Some (dir @ ''/model.ckpt-10'') else None),
       Server = (\<lambda>c t. Inr ''grpc://localhost:2222''),
       GetListOfFeatureNamesAndSizes = (\<lambda>names sizes. Inr ([names], [1024])),
       instantiate = (\<lambda>cls. Inr cls),
       shuffle_batch_join = (\<lambda>rd fs. None),
       graph_ops = (\<lambda>rd mdl label_loss_fn opt transformer_class augmenter_class. None),
       managed_session = (\<lambda>target. None),
       restore = (\<lambda>checkpoint. None),
       assign_weights = None \<rparr>"

definition sample_world :: "string list \<Rightarrow> string list world" where
  "sample_world fs = \<lparr> files = fs, logging = [], summary_writer = [], train_ops_run = 0 \<rparr>"

definition sample_master :: Trainer where
  "sample_master =
     \<lparr> cluster = None, task = \<lparr> type = ''master'', index = 0 \<rparr>, is_master = True,
       train_dir = ''/tmp/yt8m_model/'', log_device_placement = False \<rparr>"

definition sample_worker :: Trainer where
  "sample_worker =
     \<lparr> cluster = Some [(''master'', [''a:1'']), (''worker'', [''b:1'', ''c:1''])],
       task = \<lparr> type = ''worker'', index = 1 \<rparr>, is_master = False,
       train_dir = ''/tmp/yt8m_model/'', log_device_placement = False \<rparr>"

definition sample_eval_util :: eval_util where
  "sample_eval_util =
     \<lparr> calculate_hit_at_one = (\<lambda>p y. 1),
       calculate_precision_at_equal_recall_rate = (\<lambda>p y. 1 / 2),
       calculate_recall_at_n = (\<lambda>p y n. 1 / 4),
       calculate_gap = (\<lambda>p y. 3 / 4),
       format_2f = (\<lambda>x. ''0.25'') \<rparr>"

definition sample_registry :: registry where
  "sample_registry =
     \<lparr> frame_level_models = Map.empty,
       video_level_models =
         [''LogisticModel'' \<mapsto> PyClass ''LogisticModel'' [''LogisticModel'', ''BaseModel'', ''object'']],
       losses =
         [''CrossEntropyLoss'' \<mapsto> PyClass ''CrossEntropyLoss'' [''CrossEntropyLoss'', ''BaseLoss'', ''object''],
          ''Helper'' \<mapsto> PyClass ''Helper'' [''Helper'', ''object'']],
       tf_train =
         [''AdamOptimizer'' \<mapsto> PyClass ''AdamOptimizer'' [''AdamOptimizer'', ''Optimizer'', ''object'']],
       feature_transform =
         [''DefaultTransformer'' \<mapsto> PyClass ''DefaultTransformer'' [''DefaultTransformer'', ''object'']],
       data_augmentation =
         [''DefaultAugmenter'' \<mapsto> PyClass ''DefaultAugmenter'' [''DefaultAugmenter'', ''object'']] \<rparr>"

section \<open>Role dispatch\<close>

lemma Trainer_init_never_raises:
  "Trainer_init c t dir ldp =
     Inr \<lparr> cluster = c, task = t, is_master = (type t = ''master'' \<and> index t = 0),
           train_dir = dir, log_device_placement = ldp \<rparr>"
  by (auto simp: Trainer_init_def Let_def)

lemma load_cluster_None:
  "load_cluster env = None \<longleftrightarrow> env_cluster env = None \<or> env_cluster env = Some []"
  by (auto simp: load_cluster_def split: option.splits)

text \<open>
  C3. The claim: a task that names the master role with an index other than 0 makes the
  construction of the trainer fail. The code computes \<open>is_master\<close> as "master and index 0"
  and raises only when \<open>is_master\<close> holds together with a positive index, which never
  happens: the task master 1 is accepted, as a trainer that is not the master.
\<close>

theorem Trainer_init_second_master_accepted:
  "Trainer_init c \<lparr> type = ''master'', index = 1 \<rparr> dir ldp =
     Inr \<lparr> cluster = c, task = \<lparr> type = ''master'', index = 1 \<rparr>, is_master = False,
           train_dir = dir, log_device_placement = ldp \<rparr>"
  by (simp add: Trainer_init_def Let_def)

text \<open>
  C5. Role dispatch: without a cluster, or for the roles master and worker, a trainer is
  constructed whose \<open>is_master\<close> is "role master and index 0"; for the role ps with a
  cluster, a parameter server; for any other role with a cluster, a \<open>ValueError\<close>.
\<close>

theorem main_dispatch_roles:
  "(load_cluster env = None \<or> type (load_task env) = ''master'' \<or> type (load_task env) = ''worker''
      \<longrightarrow> main_dispatch env dir ldp =
            Inr (RunTrainer \<lparr> cluster = load_cluster env, task = load_task env,
                   is_master = (type (load_task env) = ''master'' \<and> index (load_task env) = 0),
                   train_dir = dir, log_device_placement = ldp \<rparr>))
   \<and> (load_cluster env \<noteq> None \<and> type (load_task env) = ''ps''
      \<longrightarrow> main_dispatch env dir ldp =
            Inr (RunParameterServer \<lparr> ps_cluster = load_cluster env, ps_task = load_task env \<rparr>))
   \<and> (load_cluster env \<noteq> None \<and> type (load_task env) \<notin> {''master'', ''worker'', ''ps''}
      \<longrightarrow> (\<exists>msg. main_dispatch env dir ldp = Inl (ValueError msg)))"
  by (auto simp: main_dispatch_def Let_def Trainer_init_never_raises ParameterServer_init_def)

theorem main_dispatch_roles_witness:
  "main_dispatch \<lparr> env_cluster = None, env_task = Some \<lparr> type = ''worker'', index = 3 \<rparr> \<rparr> ''/tmp/m'' False =
     Inr (RunTrainer \<lparr> cluster = None, task = \<lparr> type = ''worker'', index = 3 \<rparr>,
            is_master = False, train_dir = ''/tmp/m'', log_device_placement = False \<rparr>)
   \<and> main_dispatch \<lparr> env_cluster = Some [(''ps'', [''h:1''])], env_task = None \<rparr> ''/tmp/m'' False =
     Inr (RunTrainer \<lparr> cluster = Some [(''ps'', [''h:1''])], task = \<lparr> type = ''master'', index = 0 \<rparr>,
            is_master = True, train_dir = ''/tmp/m'', log_device_placement = False \<rparr>)
   \<and> main_dispatch \<lparr> env_cluster = Some [(''ps'', [''h:1''])], env_task = Some \<lparr> type = ''ps'', index = 0 \<rparr> \<rparr> ''/tmp/m'' False =
     Inr (RunParameterServer \<lparr> ps_cluster = Some [(''ps'', [''h:1''])], ps_task = \<lparr> type = ''ps'', index = 0 \<rparr> \<rparr>)
   \<and> (\<exists>msg. main_dispatch \<lparr> env_cluster = Some [(''ps'', [''h:1''])], env_task = Some \<lparr> type = ''chief'', index = 0 \<rparr> \<rparr> ''/tmp/m'' False =
     Inl (ValueError msg))"
  using main_dispatch_roles [of "\<lparr> env_cluster = None, env_task = Some \<lparr> type = ''worker'', index = 3 \<rparr> \<rparr>" "''/tmp/m''" False]
    main_dispatch_roles [of "\<lparr> env_cluster = Some [(''ps'', [''h:1''])], env_task = None \<rparr>" "''/tmp/m''" False]
    main_dispatch_roles [of "\<lparr> env_cluster = Some [(''ps'', [''h:1''])], env_task = Some \<lparr> type = ''ps'', index = 0 \<rparr> \<rparr>" "''/tmp/m''" False]
    main_dispatch_roles [of "\<lparr> env_cluster = Some [(''ps'', [''h:1''])], env_task = Some \<lparr> type = ''chief'', index = 0 \<rparr> \<rparr>" "''/tmp/m''" False]
  by (simp add: load_cluster_def load_task_def)

section \<open>Blend distillation: the reformed labels\<close>

lemma reform_row_general:
  "reform_row p ls ds =
     map2 (\<lambda>l d. clip_by_value 0 1
                    (of_bool l + d * (sum_list (map of_bool ls) / (sum_list ds + 1 / 1000000) * p)))
       ls ds"
  by (simp add: reform_row_def Let_def zip_map1 case_prod_unfold)

lemma reform_row_scenario:
  assumes "sum_list (map of_bool ls) = (2::real)" and "sum_list ds = 1"
  shows "reform_row (1 / 2) ls ds =
           map2 (\<lambda>l d. clip_by_value 0 1 (of_bool l + d * (1000000 / 1000001))) ls ds"
  using assms by (simp add: reform_row_general)

text \<open>
  C1, as amended. For a batch of labels and distilled labels of the same shape, each row
  of the hybrid labels is the label row plus the distilled row times
  \<open>sum labels / (sum distilled + 1e-6) * p\<close>, clipped element-wise to \<open>[0, 1]\<close>. When
  every label row sums to 2, every distilled row sums to 1 and \<open>p = 0.5\<close>, that factor is
  \<open>2 / (1 + 1e-6) * 0.5 = 1000000 / 1000001\<close>: the weight \<open>p\<close> is part of the factor, which
  is just below 1 and not 2.
\<close>

theorem reform_labels_blend:
  assumes "same_shape labels_batch distill_labels_batch"
  shows "reform_labels p labels_batch distill_labels_batch =
           Inr (map2 (\<lambda>ls ds. map2 (\<lambda>l d. clip_by_value 0 1
                    (of_bool l + d * (sum_list (map of_bool ls) / (sum_list ds + 1 / 1000000) * p)))
                  ls ds) labels_batch distill_labels_batch)
         \<and> ((\<forall>ls \<in> set labels_batch. sum_list (map of_bool ls) = (2::real))
              \<and> (\<forall>ds \<in> set distill_labels_batch. sum_list ds = 1)
            \<longrightarrow> reform_labels (1 / 2) labels_batch distill_labels_batch =
                  Inr (map2 (\<lambda>ls ds. map2 (\<lambda>l d. clip_by_value 0 1
                          (of_bool l + d * (1000000 / 1000001))) ls ds)
                        labels_batch distill_labels_batch))"
proof
  show "reform_labels p labels_batch distill_labels_batch =
           Inr (map2 (\<lambda>ls ds. map2 (\<lambda>l d. clip_by_value 0 1
                    (of_bool l + d * (sum_list (map of_bool ls) / (sum_list ds + 1 / 1000000) * p)))
                  ls ds) labels_batch distill_labels_batch)"
    by (simp only: reform_labels_def reform_row_general assms if_True)
next
  show "(\<forall>ls \<in> set labels_batch. sum_list (map of_bool ls) = (2::real))
              \<and> (\<forall>ds \<in> set distill_labels_batch. sum_list ds = 1)
            \<longrightarrow> reform_labels (1 / 2) labels_batch distill_labels_batch =
                  Inr (map2 (\<lambda>ls ds. map2 (\<lambda>l d. clip_by_value 0 1
                          (of_bool l + d * (1000000 / 1000001))) ls ds)
                        labels_batch distill_labels_batch)"
  proof
    assume h: "(\<forall>ls \<in> set labels_batch. sum_list (map of_bool ls) = (2::real))
              \<and> (\<forall>ds \<in> set distill_labels_batch. sum_list ds = 1)"
    have "map2 (reform_row (1 / 2)) labels_batch distill_labels_batch =
          map2 (\<lambda>ls ds. map2 (\<lambda>l d. clip_by_value 0 1
                          (of_bool l + d * (1000000 / 1000001))) ls ds)
                        labels_batch distill_labels_batch"
    proof (rule map_cong [OF refl])
      fix x assume "x \<in> set (zip labels_batch distill_labels_batch)"
      then have "(fst x, snd x) \<in> set (zip labels_batch distill_labels_batch)"
        by simp
      then have "fst x \<in> set labels_batch" "snd x \<in> set distill_labels_batch"
        by (rule set_zip_leftD, rule set_zip_rightD)
      with h have "reform_row (1 / 2) (fst x) (snd x) =
           map2 (\<lambda>l d. clip_by_value 0 1 (of_bool l + d * (1000000 / 1000001))) (fst x) (snd x)"
        by (simp add: reform_row_scenario)
      then show "(case x of (x, xa) \<Rightarrow> reform_row (1 / 2) x xa) =
         (case x of (ls, ds) \<Rightarrow> map2 (\<lambda>l d. clip_by_value 0 1 (of_bool l + d * (1000000 / 1000001))) ls ds)"
        by (simp add: case_prod_unfold)
    qed
    with assms show "reform_labels (1 / 2) labels_batch distill_labels_batch =
                  Inr (map2 (\<lambda>ls ds. map2 (\<lambda>l d. clip_by_value 0 1
                          (of_bool l + d * (1000000 / 1000001))) ls ds)
                        labels_batch distill_labels_batch)"
      by (simp add: reform_labels_def)
  qed
qed

theorem reform_labels_blend_witness:
  "same_shape [[True, True, False]] [[0, 1 / 2, 1 / 2 :: real]]
   \<and> sum_list (map of_bool [True, True, False]) = (2::real)
   \<and> sum_list [0, 1 / 2, 1 / 2] = (1::real)
   \<and> reform_labels (1 / 2) [[True, True, False]] [[0, 1 / 2, 1 / 2]] =
       Inr [[1, 1, 500000 / 1000001]]"
proof -
  have shape: "same_shape [[True, True, False]] [[0, 1 / 2, 1 / 2 :: real]]"
    by (simp add: same_shape_def)
  have rows: "(\<forall>ls \<in> set [[True, True, False]]. sum_list (map of_bool ls) = (2::real))
     \<and> (\<forall>ds \<in> set [[0, 1 / 2, 1 / 2 :: real]]. sum_list ds = 1)"
    by simp
  have "reform_labels (1 / 2) [[True, True, False]] [[0, 1 / 2, 1 / 2]] =
          Inr (map2 (\<lambda>ls ds. map2 (\<lambda>l d. clip_by_value 0 1
                          (of_bool l + d * (1000000 / 1000001))) ls ds)
                        [[True, True, False]] [[0, 1 / 2, 1 / 2]])"
    using reform_labels_blend [OF shape, of "1 / 2"] rows by blast
  also have "\<dots> = Inr [[1, 1, 500000 / 1000001]]"
    by (simp add: clip_by_value_def)
  finally have r: "reform_labels (1 / 2) [[True, True, False]] [[0, 1 / 2, 1 / 2]] =
      Inr [[1, 1, 500000 / 1000001]]" .
  have sums: "sum_list (map of_bool [True, True, False]) = (2::real)"
      "sum_list [0, 1 / 2, 1 / 2] = (1::real)"
    by simp_all
  show ?thesis
    by (intro conjI shape sums r)
qed

text \<open>
  C1 as stated fails: for the labels \<open>[1, 1, 0]\<close> and the distilled row \<open>[0, 0.5, 0.5]\<close> the
  code gives \<open>[1, 1, 500000 / 1000001]\<close>, and \<open>labels + distilled * 2\<close> clipped gives
  \<open>[1, 1, 1]\<close>.
\<close>

theorem blend_scenario_counterexample:
  "sum_list (map of_bool [True, True, False]) = (2::real)
   \<and> sum_list [0, 1 / 2, 1 / 2] = (1::real)
   \<and> reform_labels (1 / 2) [[True, True, False]] [[0, 1 / 2, 1 / 2]] = Inr [[1, 1, 500000 / 1000001]]
   \<and> spec_blend_scenario [[True, True, False]] [[0, 1 / 2, 1 / 2]] = [[1, 1, 1]]
   \<and> reform_labels (1 / 2) [[True, True, False]] [[0, 1 / 2, 1 / 2]]
       \<noteq> Inr (spec_blend_scenario [[True, True, False]] [[0, 1 / 2, 1 / 2]])"
proof -
  have code: "reform_labels (1 / 2) [[True, True, False]] [[0, 1 / 2, 1 / 2]] =
      Inr [[1, 1, 500000 / 1000001]]"
    by (simp add: reform_labels_def same_shape_def reform_row_def clip_by_value_def)
  have spec: "spec_blend_scenario [[True, True, False]] [[0, 1 / 2, 1 / 2]] = [[1, 1, 1]]"
    by (simp add: spec_blend_scenario_def clip_by_value_def)
  have differ: "reform_labels (1 / 2) [[True, True, False]] [[0, 1 / 2, 1 / 2]]
       \<noteq> Inr (spec_blend_scenario [[True, True, False]] [[0, 1 / 2, 1 / 2]])"
    unfolding code spec by simp
  have sums: "sum_list (map of_bool [True, True, False]) = (2::real)"
      "sum_list [0, 1 / 2, 1 / 2] = (1::real)"
    by simp_all
  show ?thesis
    by (intro conjI sums code spec differ)
qed

section \<open>Replace distillation: the label loss\<close>

text \<open>
  C2, as amended. With \<^verbatim>\<open>distillation_features\<close> set and \<^verbatim>\<open>distillation_type\<close> 1, and when
  the result of the model brings no loss of its own, the label loss is the interpolation
  of the specification between the loss on the labels and the loss on the distilled
  labels, computed by \<^verbatim>\<open>calculate_loss\<close> without multitask and, with multitask, by the
  call that also takes the support predictions.
\<close>

theorem label_loss_replace:
  assumes "distillation_features fl" and "distillation_type fl = 1" and "loss result = None"
  shows "(\<not> multitask fl \<longrightarrow>
            build_graph_label_loss fl fn result labels_batch distill_labels_batch video_weights =
              Inr (spec_replace (distillation_percent fl)
                     (calculate_loss fn (predictions result) labels_batch
                        (if reweight fl then Some video_weights else None))
                     (calculate_loss fn (predictions result) distill_labels_batch
                        (if reweight fl then Some video_weights else None))))
       \<and> (multitask fl \<and> support_predictions result = Some sp \<longrightarrow>
            build_graph_label_loss fl fn result labels_batch distill_labels_batch video_weights =
              Inr (spec_replace (distillation_percent fl)
                     (calculate_loss_support fn (predictions result) sp labels_batch
                        (if reweight fl then Some video_weights else None))
                     (calculate_loss_support fn (predictions result) sp distill_labels_batch
                        (if reweight fl then Some video_weights else None))))"
  using assms
  by (simp add: build_graph_label_loss_def spec_replace_def Let_def mult.commute)

theorem label_loss_replace_witness:
  "build_graph_label_loss
      (default_FLAGS\<lparr> distillation_features := True, distillation_type := 1,
                      distillation_percent := 3 / 10 \<rparr>)
      \<lparr> calculate_loss = (\<lambda>p l w. if l then 10 else 2),
        calculate_loss_support = (\<lambda>p s l w. if l then 30 else 4) \<rparr>
      \<lparr> predictions = (), loss = None, support_predictions = None, regularization_loss = None \<rparr>
      False True () = Inr (22 / 5)
   \<and> build_graph_label_loss
      (default_FLAGS\<lparr> distillation_features := True, distillation_type := 1,
                      distillation_percent := 3 / 10, multitask := True \<rparr>)
      \<lparr> calculate_loss = (\<lambda>p l w. if l then 10 else 2),
        calculate_loss_support = (\<lambda>p s l w. if l then 30 else 4) \<rparr>
      \<lparr> predictions = (), loss = None, support_predictions = Some (), regularization_loss = None \<rparr>
      False True () = Inr (59 / 5)"
proof -
  let ?fn = "\<lparr> calculate_loss = (\<lambda>(p::unit) (l::bool) (w::unit option). if l then 10 else (2::real)),
        calculate_loss_support = (\<lambda>(p::unit) (s::unit) (l::bool) (w::unit option). if l then 30 else (4::real)) \<rparr>"
  let ?fl = "default_FLAGS\<lparr> distillation_features := True, distillation_type := 1,
                      distillation_percent := 3 / 10 \<rparr>"
  let ?r = "\<lparr> predictions = (), loss = None, support_predictions = None, regularization_loss = None \<rparr>"
  have a: "distillation_features ?fl" "distillation_type ?fl = 1" "loss ?r = None" "\<not> multitask ?fl"
    by (simp_all add: default_FLAGS_def)
  have 1: "build_graph_label_loss ?fl ?fn ?r False True () = Inr (22 / 5)"
    using label_loss_replace [of ?fl ?r ?fn False True "()", OF a(1) a(2) a(3)] a(4)
    by (simp add: spec_replace_def default_FLAGS_def)
  let ?fl2 = "default_FLAGS\<lparr> distillation_features := True, distillation_type := 1,
                      distillation_percent := 3 / 10, multitask := True \<rparr>"
  let ?r2 = "\<lparr> predictions = (), loss = None, support_predictions = Some (), regularization_loss = None \<rparr>"
  have b: "distillation_features ?fl2" "distillation_type ?fl2 = 1" "loss ?r2 = None" "multitask ?fl2"
     "support_predictions ?r2 = Some ()"
    by (simp_all add: default_FLAGS_def)
  have 2: "build_graph_label_loss ?fl2 ?fn ?r2 False True () = Inr (59 / 5)"
    using label_loss_replace [of ?fl2 ?r2 ?fn False True "()" "()", OF b(1) b(2) b(3)] b(4) b(5)
    by (simp add: spec_replace_def default_FLAGS_def)
  show ?thesis by (intro conjI 1 2)
qed

text \<open>
  C2 as stated fails where the result of the model has an entry \<^verbatim>\<open>loss\<close>: line 359 takes
  that entry as the label loss, whatever the distillation flags say.
\<close>

theorem label_loss_replace_counterexample:
  "build_graph_label_loss
      (default_FLAGS\<lparr> distillation_features := True, distillation_type := 1,
                      distillation_percent := 3 / 10 \<rparr>)
      \<lparr> calculate_loss = (\<lambda>p l w. if l then 10 else 2),
        calculate_loss_support = (\<lambda>p s l w. if l then 30 else 4) \<rparr>
      \<lparr> predictions = (), loss = Some 7, support_predictions = None, regularization_loss = None \<rparr>
      False True () = Inr 7
   \<and> spec_replace (3 / 10) 2 10 = 22 / 5
   \<and> build_graph_label_loss
      (default_FLAGS\<lparr> distillation_features := True, distillation_type := 1,
                      distillation_percent := 3 / 10 \<rparr>)
      \<lparr> calculate_loss = (\<lambda>p l w. if l then 10 else 2),
        calculate_loss_support = (\<lambda>p s l w. if l then 30 else 4) \<rparr>
      \<lparr> predictions = (), loss = Some 7, support_predictions = None, regularization_loss = None \<rparr>
      False True ()
     \<noteq> Inr (spec_replace (3 / 10)
              (calculate_loss \<lparr> calculate_loss = (\<lambda>p l w. if l then 10 else 2),
                   calculate_loss_support = (\<lambda>p s l w. if l then 30 else 4) \<rparr> () False (None :: unit option))
              (calculate_loss \<lparr> calculate_loss = (\<lambda>p l w. if l then 10 else 2),
                   calculate_loss_support = (\<lambda>p s l w. if l then 30 else 4) \<rparr> () True (None :: unit option)))"
  by (simp add: build_graph_label_loss_def spec_replace_def default_FLAGS_def)

section \<open>Starting a new model\<close>

lemma remove_training_directory_result:
  "remove_training_directory tf self dir w =
     (Return (),
      w\<lparr> logging := logging w @ [(INFO, Removing_existing_train_directory)]
                      @ (case fst (DeleteRecursively tf (files w) dir) of
                           None \<Rightarrow> []
                         | Some e \<Rightarrow> [(ERROR, Failed_to_delete_directory dir)]),
         files := snd (DeleteRecursively tf (files w) dir) \<rparr>)"
  by (cases "DeleteRecursively tf (files w) dir"; cases "fst (DeleteRecursively tf (files w) dir)")
     (auto simp: remove_training_directory_def seq_def logging_info_def logging_error_def)

text \<open>
  C4. On the master, the resume decision with \<^verbatim>\<open>start_new_model\<close> set returns no checkpoint
  and does not raise, for every directory, every state of the files and every behaviour
  of the deletion: when the deletion raises (the directory may not exist), the error is
  logged and the decision is the same.
\<close>

theorem resume_decision_start_new:
  assumes "is_master self"
  shows "resume_decision tf self True w =
     (Return None,
      w\<lparr> logging := logging w @ [(INFO, Removing_existing_train_directory)]
                      @ (case fst (DeleteRecursively tf (files w) (train_dir self)) of
                           None \<Rightarrow> []
                         | Some e \<Rightarrow> [(ERROR, Failed_to_delete_directory (train_dir self))])
                      @ [(INFO, Flag_start_new_model_is_set)],
         files := snd (DeleteRecursively tf (files w) (train_dir self)) \<rparr>)"
  using assms
  by (simp add: resume_decision_def remove_training_directory_result seq_def
        get_latest_checkpoint_def logging_info_def ret_def)

theorem resume_decision_start_new_witness:
  "resume_decision sample_collaborators
     \<lparr> cluster = None, task = \<lparr> type = ''master'', index = 0 \<rparr>, is_master = True,
       train_dir = ''/tmp/yt8m_model/'', log_device_placement = False \<rparr>
     True (sample_world [''/data/train.tfrecord'']) =
   (Return None,
    \<lparr> files = [''/data/train.tfrecord''],
      logging = [(INFO, Removing_existing_train_directory),
                 (ERROR, Failed_to_delete_directory ''/tmp/yt8m_model/''),
                 (INFO, Flag_start_new_model_is_set)],
      summary_writer = [], train_ops_run = 0 \<rparr>)"
  using resume_decision_start_new [of
     "\<lparr> cluster = None, task = \<lparr> type = ''master'', index = 0 \<rparr>, is_master = True,
       train_dir = ''/tmp/yt8m_model/'', log_device_placement = False \<rparr>"
     sample_collaborators "sample_world [''/data/train.tfrecord'']"]
  by (simp add: sample_collaborators_def sample_world_def)

section \<open>The training loop: what a pass reports\<close>

lemma train_step_Raised:
  "train_step ev fl self (Raised e) s w = (Raise e, w)"
  by (simp add: train_step_def)

lemma train_step_worker:
  "\<not> is_master self \<Longrightarrow>
   train_step ev fl self (Fetched g l p y) s w =
     (Return (), w\<lparr>train_ops_run := train_ops_run w + 1\<rparr>)"
  by (simp add: train_step_def Let_def)

lemma train_step_master_zero:
  "is_master self \<Longrightarrow>
   train_step ev fl self (Fetched g l p y) 0 w =
     (Raise ZeroDivisionError, w\<lparr>train_ops_run := train_ops_run w + 1\<rparr>)"
  by (simp add: train_step_def Let_def)

lemma train_step_master:
  "is_master self \<Longrightarrow> s \<noteq> 0 \<Longrightarrow>
   train_step ev fl self (Fetched g l p y) s w =
     (Return (),
      w\<lparr> train_ops_run := train_ops_run w + 1,
         logging := logging w @
           [(INFO, Training_step
               \<lparr> report_global_step = g,
                 report_hit_at_one = calculate_hit_at_one ev p y,
                 report_perr = calculate_precision_at_equal_recall_rate ev p y,
                 report_gap = calculate_gap ev p y,
                 report_recall_at_n = recall_at_n fl,
                 report_recall = ''N/A'',
                 report_loss = l \<rparr>)],
         summary_writer := summary_writer w @
           [(Training_Hit1, calculate_hit_at_one ev p y, g),
            (Training_Perr, calculate_precision_at_equal_recall_rate ev p y, g),
            (Training_GAP, calculate_gap ev p y, g),
            (Examples_Second, real (length y) / s, g)] \<rparr>)"
  by (simp add: train_step_def Let_def seq_def logging_info_def add_summary_def)

lemma step_reports_append:
  "step_reports (xs @ ys) = step_reports xs @ step_reports ys"
  by (induction xs rule: step_reports.induct) simp_all

lemma recall_summaries_Nil [simp]: "recall_summaries [] = []"
  by (simp add: recall_summaries_def)

lemma recall_summaries_append:
  "recall_summaries (xs @ ys) = recall_summaries xs @ recall_summaries ys"
  by (simp add: recall_summaries_def)

text \<open>What one pass adds to the log and to the summary writer.\<close>

lemma train_step_appends:
  "\<exists>ms ss. logging (snd (train_step ev fl self r s w)) = logging w @ ms
      \<and> summary_writer (snd (train_step ev fl self r s w)) = summary_writer w @ ss
      \<and> set (map report_recall (step_reports ms)) \<subseteq> {''N/A''}
      \<and> recall_summaries ss = []
      \<and> (\<not> is_master self \<longrightarrow> step_reports ms = [] \<and> ss = [])"
proof (cases r)
  case (Raised e)
  then show ?thesis by (simp add: train_step_Raised)
next
  case (Fetched g l p y)
  show ?thesis
  proof (cases "is_master self")
    case False
    with Fetched show ?thesis by (simp add: train_step_worker)
  next
    case True
    show ?thesis
    proof (cases "s = 0")
      case True
      with \<open>is_master self\<close> Fetched show ?thesis by (simp add: train_step_master_zero)
    next
      case False
      with \<open>is_master self\<close> Fetched show ?thesis
        by (simp add: train_step_master recall_summaries_def)
    qed
  qed
qed

lemma training_loop_appends:
  "\<exists>ms ss. logging (snd (training_loop ev fl self steps script w)) = logging w @ ms
      \<and> summary_writer (snd (training_loop ev fl self steps script w)) = summary_writer w @ ss
      \<and> set (map report_recall (step_reports ms)) \<subseteq> {''N/A''}
      \<and> recall_summaries ss = []
      \<and> (\<not> is_master self \<longrightarrow> step_reports ms = [] \<and> ss = [])"
proof (induction script arbitrary: steps w)
  case Nil
  then show ?case by simp
next
  case (Cons it script)
  show ?case
  proof (cases it)
    case Stop
    then show ?thesis by simp
  next
    case (Run r s)
    obtain o1 w1 where st: "train_step ev fl self r s w = (o1, w1)"
      by (cases "train_step ev fl self r s w")
    obtain ms1 ss1 where a1: "logging w1 = logging w @ ms1"
        "summary_writer w1 = summary_writer w @ ss1"
        "set (map report_recall (step_reports ms1)) \<subseteq> {''N/A''}"
        "recall_summaries ss1 = []"
        "\<not> is_master self \<longrightarrow> step_reports ms1 = [] \<and> ss1 = []"
      using train_step_appends [of ev fl self r s w] st by auto
    have here: "\<exists>ms ss. logging w1 = logging w @ ms
      \<and> summary_writer w1 = summary_writer w @ ss
      \<and> set (map report_recall (step_reports ms)) \<subseteq> {''N/A''}
      \<and> recall_summaries ss = []
      \<and> (\<not> is_master self \<longrightarrow> step_reports ms = [] \<and> ss = [])"
      using a1 by blast
    have stop: "\<exists>ms ss. logging (w1\<lparr>logging := logging w1 @ [(INFO, Done_training_max_steps)]\<rparr>) = logging w @ ms
      \<and> summary_writer (w1\<lparr>logging := logging w1 @ [(INFO, Done_training_max_steps)]\<rparr>) = summary_writer w @ ss
      \<and> set (map report_recall (step_reports ms)) \<subseteq> {''N/A''}
      \<and> recall_summaries ss = []
      \<and> (\<not> is_master self \<longrightarrow> step_reports ms = [] \<and> ss = [])"
      using a1
      by (intro exI [of _ "ms1 @ [(INFO, Done_training_max_steps)]"] exI [of _ ss1])
         (simp add: step_reports_append)
    have go: "\<exists>ms ss. logging (snd (training_loop ev fl self k script w1)) = logging w @ ms
      \<and> summary_writer (snd (training_loop ev fl self k script w1)) = summary_writer w @ ss
      \<and> set (map report_recall (step_reports ms)) \<subseteq> {''N/A''}
      \<and> recall_summaries ss = []
      \<and> (\<not> is_master self \<longrightarrow> step_reports ms = [] \<and> ss = [])" for k
    proof -
      obtain ms2 ss2 where a2:
        "logging (snd (training_loop ev fl self k script w1)) = logging w1 @ ms2"
        "summary_writer (snd (training_loop ev fl self k script w1)) = summary_writer w1 @ ss2"
        "set (map report_recall (step_reports ms2)) \<subseteq> {''N/A''}"
        "recall_summaries ss2 = []"
        "\<not> is_master self \<longrightarrow> step_reports ms2 = [] \<and> ss2 = []"
        using Cons.IH [of k w1] by auto
      show ?thesis
        using a1 a2
        by (intro exI [of _ "ms1 @ ms2"] exI [of _ "ss1 @ ss2"])
           (simp add: step_reports_append recall_summaries_append)
    qed
    show ?thesis
    proof (cases o1)
      case (Return u)
      show ?thesis
      proof (cases "max_steps fl")
        case None
        with Run st Return go [of "steps + 1"] show ?thesis by (simp add: Let_def)
      next
        case (Some limit)
        show ?thesis
        proof (cases "steps + 1 > limit")
          case True
          with Run st Return Some stop show ?thesis
            by (simp add: Let_def seq_def logging_info_def ret_def)
        next
          case False
          with Run st Return Some go [of "steps + 1"] show ?thesis by (simp add: Let_def)
        qed
      qed
    next
      case (Raise e)
      with Run st here show ?thesis by (simp add: Let_def)
    next
      case Running
      with Run st here show ?thesis by (simp add: Let_def)
    qed
  qed
qed

lemma run_training_loop_unfold:
  "run_training_loop ev fl self script w =
     (let r = training_loop ev fl self 0 script
                (w\<lparr>logging := logging w @ [(INFO, Entering_training_loop)]\<rparr>)
      in if fst r = Raise OutOfRangeError
         then (Return epoch_limit_reached,
               (snd r)\<lparr>logging := logging (snd r) @ [(INFO, Done_training_epoch_limit)]\<rparr>)
         else r)"
proof -
  let ?w0 = "w\<lparr>logging := logging w @ [(INFO, Entering_training_loop)]\<rparr>"
  obtain o1 w1 where res: "training_loop ev fl self 0 script ?w0 = (o1, w1)"
    by (cases "training_loop ev fl self 0 script ?w0")
  show ?thesis
  proof (cases o1)
    case (Return x)
    with res show ?thesis
      by (simp add: run_training_loop_def seq_def logging_info_def Let_def)
  next
    case Running
    with res show ?thesis
      by (simp add: run_training_loop_def seq_def logging_info_def Let_def)
  next
    case (Raise e)
    with res show ?thesis
      by (cases e) (simp_all add: run_training_loop_def seq_def logging_info_def ret_def Let_def)
  qed
qed

lemma run_training_loop_appends:
  "\<exists>ms ss. logging (snd (run_training_loop ev fl self script w)) = logging w @ ms
      \<and> summary_writer (snd (run_training_loop ev fl self script w)) = summary_writer w @ ss
      \<and> set (map report_recall (step_reports ms)) \<subseteq> {''N/A''}
      \<and> recall_summaries ss = []
      \<and> (\<not> is_master self \<longrightarrow> step_reports ms = [] \<and> ss = [])"
proof -
  let ?w0 = "w\<lparr>logging := logging w @ [(INFO, Entering_training_loop)]\<rparr>"
  let ?r = "training_loop ev fl self 0 script ?w0"
  obtain ms ss where a:
      "logging (snd ?r) = logging ?w0 @ ms"
      "summary_writer (snd ?r) = summary_writer ?w0 @ ss"
      "set (map report_recall (step_reports ms)) \<subseteq> {''N/A''}"
      "recall_summaries ss = []"
      "\<not> is_master self \<longrightarrow> step_reports ms = [] \<and> ss = []"
    using training_loop_appends [of ev fl self 0 script ?w0] by auto
  show ?thesis
  proof (cases "fst ?r = Raise OutOfRangeError")
    case True
    then have "run_training_loop ev fl self script w =
        (Return epoch_limit_reached,
         (snd ?r)\<lparr>logging := logging (snd ?r) @ [(INFO, Done_training_epoch_limit)]\<rparr>)"
      by (simp add: run_training_loop_unfold Let_def)
    with a show ?thesis
      by (intro exI [of _ "(INFO, Entering_training_loop) # ms @ [(INFO, Done_training_epoch_limit)]"]
                exI [of _ ss])
         (simp add: step_reports_append)
  next
    case False
    then have "run_training_loop ev fl self script w = ?r"
      by (simp add: run_training_loop_unfold Let_def)
    with a show ?thesis
      by (intro exI [of _ "(INFO, Entering_training_loop) # ms"] exI [of _ ss]) simp
  qed
qed

lemma train_step_ignores_recall:
  "train_step (ev\<lparr>calculate_recall_at_n := f, format_2f := h\<rparr>) fl self r s w
     = train_step ev fl self r s w"
  by (cases r) (simp_all add: train_step_def Let_def)

lemma training_loop_ignores_recall:
  "training_loop (ev\<lparr>calculate_recall_at_n := f, format_2f := h\<rparr>) fl self steps script w
     = training_loop ev fl self steps script w"
proof (induction script arbitrary: steps w)
  case Nil
  show ?case by simp
next
  case (Cons it script)
  show ?case
  proof (cases it)
    case Stop
    then show ?thesis by simp
  next
    case (Run r s)
    then show ?thesis
      by (simp add: train_step_ignores_recall Cons.IH Let_def
               split: prod.splits outcome.splits option.splits)
  qed
qed

text \<open>
  C10. Whatever the flags, among them \<^verbatim>\<open>recall_at_n\<close>, every step report the loop logs has
  the recall text \<open>N/A\<close>, no summary record has a recall tag, and the loop does not depend
  on the recall function nor on the formatting of its value: they are never called.
\<close>

theorem recall_never_computed:
  "(\<exists>ms ss. logging (snd (run_training_loop ev fl self script w)) = logging w @ ms
      \<and> summary_writer (snd (run_training_loop ev fl self script w)) = summary_writer w @ ss
      \<and> set (map report_recall (step_reports ms)) \<subseteq> {''N/A''}
      \<and> recall_summaries ss = [])
   \<and> run_training_loop (ev\<lparr>calculate_recall_at_n := f, format_2f := h\<rparr>) fl self script w
       = run_training_loop ev fl self script w"
proof
  show "\<exists>ms ss. logging (snd (run_training_loop ev fl self script w)) = logging w @ ms
      \<and> summary_writer (snd (run_training_loop ev fl self script w)) = summary_writer w @ ss
      \<and> set (map report_recall (step_reports ms)) \<subseteq> {''N/A''}
      \<and> recall_summaries ss = []"
    using run_training_loop_appends [of ev fl self script w] by blast
next
  show "run_training_loop (ev\<lparr>calculate_recall_at_n := f, format_2f := h\<rparr>) fl self script w
       = run_training_loop ev fl self script w"
    by (simp add: run_training_loop_unfold training_loop_ignores_recall)
qed

theorem recall_never_computed_witness:
  "run_training_loop
     (sample_eval_util\<lparr>calculate_recall_at_n := (\<lambda>p y n. 99), format_2f := (\<lambda>x. ''99.00'')\<rparr>)
     (default_FLAGS\<lparr>recall_at_n := 5\<rparr>) sample_master
     [Run (Fetched 7 (1 / 2) [[1]] [[1]]) 2, Stop] (sample_world []) =
   (Return should_stop,
    \<lparr> files = [],
      logging = [(INFO, Entering_training_loop),
                 (INFO, Training_step
                    \<lparr> report_global_step = 7, report_hit_at_one = 1, report_perr = 1 / 2,
                      report_gap = 3 / 4, report_recall_at_n = 5, report_recall = ''N/A'',
                      report_loss = 1 / 2 \<rparr>)],
      summary_writer = [(Training_Hit1, 1, 7), (Training_Perr, 1 / 2, 7),
                        (Training_GAP, 3 / 4, 7), (Examples_Second, 1 / 2, 7)],
      train_ops_run = 1 \<rparr>)"
proof -
  have m: "is_master sample_master" by (simp add: sample_master_def)
  have "run_training_loop
     (sample_eval_util\<lparr>calculate_recall_at_n := (\<lambda>p y n. 99), format_2f := (\<lambda>x. ''99.00'')\<rparr>)
     (default_FLAGS\<lparr>recall_at_n := 5\<rparr>) sample_master
     [Run (Fetched 7 (1 / 2) [[1]] [[1]]) 2, Stop] (sample_world []) =
     run_training_loop sample_eval_util
     (default_FLAGS\<lparr>recall_at_n := 5\<rparr>) sample_master
     [Run (Fetched 7 (1 / 2) [[1]] [[1]]) 2, Stop] (sample_world [])"
    using recall_never_computed [where ev = sample_eval_util
        and fl = "default_FLAGS\<lparr>recall_at_n := 5\<rparr>" and self = sample_master
        and script = "[Run (Fetched 7 (1 / 2) [[1]] [[1]]) 2, Stop]" and w = "sample_world []"
        and f = "\<lambda>p y n. 99" and h = "\<lambda>x. ''99.00''"]
    by (rule conjunct2)
  also have "\<dots> = (Return should_stop,
    \<lparr> files = [],
      logging = [(INFO, Entering_training_loop),
                 (INFO, Training_step
                    \<lparr> report_global_step = 7, report_hit_at_one = 1, report_perr = 1 / 2,
                      report_gap = 3 / 4, report_recall_at_n = 5, report_recall = ''N/A'',
                      report_loss = 1 / 2 \<rparr>)],
      summary_writer = [(Training_Hit1, 1, 7), (Training_Perr, 1 / 2, 7),
                        (Training_GAP, 3 / 4, 7), (Examples_Second, 1 / 2, 7)],
      train_ops_run = 1 \<rparr>)"
    by (simp add: run_training_loop_unfold train_step_master [OF m] Let_def
          default_FLAGS_def sample_world_def sample_eval_util_def)
  finally show ?thesis .
qed

text \<open>
  C6. A pass of the loop whose session run returns computes the metrics and writes the
  log line and the four summary records exactly when the trainer is the master; a
  trainer that is not the master leaves the summary writer as it is and logs no step
  report, in one pass and over the whole loop.
\<close>

theorem metrics_only_on_master:
  "(is_master self \<and> s \<noteq> 0 \<longrightarrow>
      train_step ev fl self (Fetched g l p y) s w =
       (Return (),
        w\<lparr> train_ops_run := train_ops_run w + 1,
           logging := logging w @
             [(INFO, Training_step
                 \<lparr> report_global_step = g,
                   report_hit_at_one = calculate_hit_at_one ev p y,
                   report_perr = calculate_precision_at_equal_recall_rate ev p y,
                   report_gap = calculate_gap ev p y,
                   report_recall_at_n = recall_at_n fl,
                   report_recall = ''N/A'',
                   report_loss = l \<rparr>)],
           summary_writer := summary_writer w @
             [(Training_Hit1, calculate_hit_at_one ev p y, g),
              (Training_Perr, calculate_precision_at_equal_recall_rate ev p y, g),
              (Training_GAP, calculate_gap ev p y, g),
              (Examples_Second, real (length y) / s, g)] \<rparr>))
   \<and> (\<not> is_master self \<longrightarrow>
      train_step ev fl self (Fetched g l p y) s w =
        (Return (), w\<lparr>train_ops_run := train_ops_run w + 1\<rparr>))
   \<and> (fst (train_step ev fl self r s w) = Return () \<longrightarrow>
        (summary_writer (snd (train_step ev fl self r s w)) \<noteq> summary_writer w
           \<longleftrightarrow> is_master self)
      \<and> (step_reports (logging (snd (train_step ev fl self r s w))) \<noteq> step_reports (logging w)
           \<longleftrightarrow> is_master self))
   \<and> (\<not> is_master self \<longrightarrow>
        summary_writer (snd (run_training_loop ev fl self script w)) = summary_writer w
      \<and> step_reports (logging (snd (run_training_loop ev fl self script w)))
          = step_reports (logging w))"
proof (intro conjI impI)
  assume "is_master self \<and> s \<noteq> 0"
  then show "train_step ev fl self (Fetched g l p y) s w =
       (Return (),
        w\<lparr> train_ops_run := train_ops_run w + 1,
           logging := logging w @
             [(INFO, Training_step
                 \<lparr> report_global_step = g,
                   report_hit_at_one = calculate_hit_at_one ev p y,
                   report_perr = calculate_precision_at_equal_recall_rate ev p y,
                   report_gap = calculate_gap ev p y,
                   report_recall_at_n = recall_at_n fl,
                   report_recall = ''N/A'',
                   report_loss = l \<rparr>)],
           summary_writer := summary_writer w @
             [(Training_Hit1, calculate_hit_at_one ev p y, g),
              (Training_Perr, calculate_precision_at_equal_recall_rate ev p y, g),
              (Training_GAP, calculate_gap ev p y, g),
              (Examples_Second, real (length y) / s, g)] \<rparr>)"
    by (simp add: train_step_master)
next
  assume "\<not> is_master self"
  then show "train_step ev fl self (Fetched g l p y) s w =
        (Return (), w\<lparr>train_ops_run := train_ops_run w + 1\<rparr>)"
    by (simp add: train_step_worker)
next
  assume ret: "fst (train_step ev fl self r s w) = Return ()"
  then obtain g l p y where r: "r = Fetched g l p y"
    by (cases r) (simp_all add: train_step_Raised)
  have nz: "is_master self \<Longrightarrow> s \<noteq> 0"
    using ret r by (auto simp: train_step_master_zero)
  show "summary_writer (snd (train_step ev fl self r s w)) \<noteq> summary_writer w
           \<longleftrightarrow> is_master self"
    using nz r by (cases "is_master self") (simp_all add: train_step_master train_step_worker)
  show "step_reports (logging (snd (train_step ev fl self r s w))) \<noteq> step_reports (logging w)
           \<longleftrightarrow> is_master self"
    using nz r
    by (cases "is_master self")
       (simp_all add: train_step_master train_step_worker step_reports_append)
next
  assume nm: "\<not> is_master self"
  obtain ms ss where a:
      "logging (snd (run_training_loop ev fl self script w)) = logging w @ ms"
      "summary_writer (snd (run_training_loop ev fl self script w)) = summary_writer w @ ss"
      "\<not> is_master self \<longrightarrow> step_reports ms = [] \<and> ss = []"
    using run_training_loop_appends [of ev fl self script w] by auto
  show "summary_writer (snd (run_training_loop ev fl self script w)) = summary_writer w"
    using a nm by simp
  show "step_reports (logging (snd (run_training_loop ev fl self script w)))
          = step_reports (logging w)"
    using a nm by (simp add: step_reports_append)
qed

theorem metrics_only_on_master_witness:
  "train_step sample_eval_util default_FLAGS sample_master (Fetched 7 (1 / 2) [[1]] [[1]]) 2
     (sample_world []) =
     (Return (),
      \<lparr> files = [],
        logging = [(INFO, Training_step
                    \<lparr> report_global_step = 7, report_hit_at_one = 1, report_perr = 1 / 2,
                      report_gap = 3 / 4, report_recall_at_n = 100, report_recall = ''N/A'',
                      report_loss = 1 / 2 \<rparr>)],
        summary_writer = [(Training_Hit1, 1, 7), (Training_Perr, 1 / 2, 7),
                          (Training_GAP, 3 / 4, 7), (Examples_Second, 1 / 2, 7)],
        train_ops_run = 1 \<rparr>)
   \<and> train_step sample_eval_util default_FLAGS sample_worker (Fetched 7 (1 / 2) [[1]] [[1]]) 2
     (sample_world []) =
     (Return (), \<lparr> files = [], logging = [], summary_writer = [], train_ops_run = 1 \<rparr>)
   \<and> summary_writer (snd (run_training_loop sample_eval_util default_FLAGS sample_worker
          [Run (Fetched 7 (1 / 2) [[1]] [[1]]) 2, Run (Fetched 8 (1 / 4) [[1]] [[1]]) 2, Stop]
          (sample_world []))) = []
   \<and> step_reports (logging (snd (run_training_loop sample_eval_util default_FLAGS sample_worker
          [Run (Fetched 7 (1 / 2) [[1]] [[1]]) 2, Run (Fetched 8 (1 / 4) [[1]] [[1]]) 2, Stop]
          (sample_world [])))) = []"
proof -
  have m: "is_master sample_master \<and> (2::real) \<noteq> 0" by (simp add: sample_master_def)
  have nm: "\<not> is_master sample_worker" by (simp add: sample_worker_def)
  note t1 = metrics_only_on_master [where self = sample_master and s = 2
      and ev = sample_eval_util and fl = default_FLAGS and g = 7 and l = "1 / 2"
      and p = "[[1]]" and y = "[[1]]" and w = "sample_world []"]
  note t2 = metrics_only_on_master [where self = sample_worker and s = 2
      and ev = sample_eval_util and fl = default_FLAGS and g = 7 and l = "1 / 2"
      and p = "[[1]]" and y = "[[1]]" and w = "sample_world []"
      and script = "[Run (Fetched 7 (1 / 2) [[1]] [[1]]) 2, Run (Fetched 8 (1 / 4) [[1]] [[1]]) 2, Stop]"]
  have 1: "train_step sample_eval_util default_FLAGS sample_master (Fetched 7 (1 / 2) [[1]] [[1]]) 2
     (sample_world []) =
     (Return (),
      \<lparr> files = [],
        logging = [(INFO, Training_step
                    \<lparr> report_global_step = 7, report_hit_at_one = 1, report_perr = 1 / 2,
                      report_gap = 3 / 4, report_recall_at_n = 100, report_recall = ''N/A'',
                      report_loss = 1 / 2 \<rparr>)],
        summary_writer = [(Training_Hit1, 1, 7), (Training_Perr, 1 / 2, 7),
                          (Training_GAP, 3 / 4, 7), (Examples_Second, 1 / 2, 7)],
        train_ops_run = 1 \<rparr>)"
    using t1 m by (simp add: sample_world_def sample_eval_util_def default_FLAGS_def)
  have 2: "train_step sample_eval_util default_FLAGS sample_worker (Fetched 7 (1 / 2) [[1]] [[1]]) 2
     (sample_world []) =
     (Return (), \<lparr> files = [], logging = [], summary_writer = [], train_ops_run = 1 \<rparr>)"
    using t2 nm by (simp add: sample_world_def)
  have 3: "summary_writer (snd (run_training_loop sample_eval_util default_FLAGS sample_worker
          [Run (Fetched 7 (1 / 2) [[1]] [[1]]) 2, Run (Fetched 8 (1 / 4) [[1]] [[1]]) 2, Stop]
          (sample_world []))) = []"
     "step_reports (logging (snd (run_training_loop sample_eval_util default_FLAGS sample_worker
          [Run (Fetched 7 (1 / 2) [[1]] [[1]]) 2, Run (Fetched 8 (1 / 4) [[1]] [[1]]) 2, Stop]
          (sample_world [])))) = []"
    using t2 nm by (simp_all add: sample_world_def)
  show ?thesis by (intro conjI 1 2 3)
qed

section \<open>The training loop: how it ends\<close>

lemma completes_step:
  assumes "completes self (Run r s)"
  shows "\<exists>w1. train_step ev fl self r s w = (Return (), w1)
           \<and> train_ops_run w1 = train_ops_run w + 1"
proof (cases r)
  case (Raised e)
  with assms show ?thesis by simp
next
  case (Fetched g l p y)
  show ?thesis
  proof (cases "is_master self")
    case True
    with assms Fetched have "s \<noteq> 0" by simp
    with True Fetched show ?thesis by (simp add: train_step_master)
  next
    case False
    with Fetched show ?thesis by (simp add: train_step_worker)
  qed
qed

lemma training_loop_completing:
  assumes "\<forall>it \<in> set good. completes self it"
    and "\<forall>limit. max_steps fl = Some limit \<longrightarrow> steps + int (length good) \<le> limit"
  shows "\<exists>w'. training_loop ev fl self steps (good @ rest) w
                 = training_loop ev fl self (steps + int (length good)) rest w'
              \<and> train_ops_run w' = train_ops_run w + length good"
  using assms
proof (induction good arbitrary: steps w)
  case Nil
  show ?case by (intro exI [of _ w]) simp
next
  case (Cons it good)
  from Cons.prems(1) have c: "completes self it" by simp
  then obtain r s where it: "it = Run r s" by (cases it) simp_all
  obtain w1 where st: "train_step ev fl self r s w = (Return (), w1)"
      and ops: "train_ops_run w1 = train_ops_run w + 1"
    using completes_step [of self r s ev fl w] c it by auto
  have lim: "\<forall>limit. max_steps fl = Some limit \<longrightarrow> (steps + 1) + int (length good) \<le> limit"
    using Cons.prems(2) by auto
  then have nobreak: "\<forall>limit. max_steps fl = Some limit \<longrightarrow> \<not> steps + 1 > limit"
    by auto
  have step: "training_loop ev fl self steps ((it # good) @ rest) w
      = training_loop ev fl self (steps + 1) (good @ rest) w1"
    using it st nobreak by (simp add: Let_def split: option.splits)
  obtain w' where ih: "training_loop ev fl self (steps + 1) (good @ rest) w1
                 = training_loop ev fl self ((steps + 1) + int (length good)) rest w'"
      and ops': "train_ops_run w' = train_ops_run w1 + length good"
    using Cons.IH [of "steps + 1" w1] Cons.prems(1) lim by auto
  have idx: "(steps + 1) + int (length good) = steps + int (length (it # good))"
    by simp
  have "training_loop ev fl self steps ((it # good) @ rest) w
      = training_loop ev fl self (steps + int (length (it # good))) rest w'"
    using step ih unfolding idx by simp
  moreover have "train_ops_run w' = train_ops_run w + length (it # good)"
    using ops ops' by simp
  ultimately show ?case by blast
qed

text \<open>
  C9. With a step limit configured, the loop leaves through the \<^verbatim>\<open>break\<close> in the pass in
  which the counter exceeds the limit, that is after \<open>limit + 1\<close> training operations; when
  the session run raises \<^verbatim>\<open>OutOfRangeError\<close>, the loop ends as well. Both are returns, each
  with its own line logged at level \<open>INFO\<close>; \<^verbatim>\<open>OutOfRangeError\<close> never leaves the loop, and any
  other exception of the session run does.
\<close>

theorem training_loop_ends_cleanly:
  "(max_steps fl = Some limit \<and> 0 \<le> limit \<and> length good = nat limit
      \<and> (\<forall>it \<in> set good. completes self it) \<and> completes self it
    \<longrightarrow> (\<exists>w'. run_training_loop ev fl self (good @ it # rest) w = (Return max_steps_reached, w')
            \<and> train_ops_run w' = train_ops_run w + nat limit + 1
            \<and> last (logging w') = (INFO, Done_training_max_steps)))
   \<and> ((\<forall>k. max_steps fl = Some k \<longrightarrow> int (length good) \<le> k)
      \<and> (\<forall>it \<in> set good. completes self it)
    \<longrightarrow> (\<exists>w'. run_training_loop ev fl self (good @ Run (Raised OutOfRangeError) s # rest) w
                 = (Return epoch_limit_reached, w')
            \<and> train_ops_run w' = train_ops_run w + length good
            \<and> last (logging w') = (INFO, Done_training_epoch_limit)))
   \<and> ((\<forall>k. max_steps fl = Some k \<longrightarrow> int (length good) \<le> k)
      \<and> (\<forall>it \<in> set good. completes self it) \<and> e \<noteq> OutOfRangeError
    \<longrightarrow> (\<exists>w'. run_training_loop ev fl self (good @ Run (Raised e) s # rest) w = (Raise e, w')))
   \<and> fst (run_training_loop ev fl self script w) \<noteq> Raise OutOfRangeError"
proof (intro conjI impI)
  let ?w0 = "w\<lparr>logging := logging w @ [(INFO, Entering_training_loop)]\<rparr>"
  assume a: "max_steps fl = Some limit \<and> 0 \<le> limit \<and> length good = nat limit
      \<and> (\<forall>it \<in> set good. completes self it) \<and> completes self it"
  then have lim: "\<forall>k. max_steps fl = Some k \<longrightarrow> 0 + int (length good) \<le> k" by auto
  obtain w1 where pre: "training_loop ev fl self 0 (good @ it # rest) ?w0
                 = training_loop ev fl self (0 + int (length good)) (it # rest) w1"
      and ops1: "train_ops_run w1 = train_ops_run ?w0 + length good"
    using training_loop_completing [of good self fl 0 ev "it # rest" ?w0] a lim by blast
  from a obtain r t where it: "it = Run r t" by (cases it) auto
  obtain w2 where st: "train_step ev fl self r t w1 = (Return (), w2)"
      and ops2: "train_ops_run w2 = train_ops_run w1 + 1"
    using completes_step [of self r t ev fl w1] a it by auto
  let ?w3 = "w2\<lparr>logging := logging w2 @ [(INFO, Done_training_max_steps)]\<rparr>"
  have "training_loop ev fl self (0 + int (length good)) (it # rest) w1
      = (Return max_steps_reached, ?w3)"
    using a it st by (simp add: Let_def seq_def logging_info_def ret_def)
  with pre have "run_training_loop ev fl self (good @ it # rest) w = (Return max_steps_reached, ?w3)"
    by (simp add: run_training_loop_unfold Let_def)
  moreover have "train_ops_run ?w3 = train_ops_run w + nat limit + 1"
    using ops1 ops2 a by simp
  moreover have "last (logging ?w3) = (INFO, Done_training_max_steps)" by simp
  ultimately show "\<exists>w'. run_training_loop ev fl self (good @ it # rest) w = (Return max_steps_reached, w')
            \<and> train_ops_run w' = train_ops_run w + nat limit + 1
            \<and> last (logging w') = (INFO, Done_training_max_steps)"
    by blast
next
  let ?w0 = "w\<lparr>logging := logging w @ [(INFO, Entering_training_loop)]\<rparr>"
  assume a: "(\<forall>k. max_steps fl = Some k \<longrightarrow> int (length good) \<le> k)
      \<and> (\<forall>it \<in> set good. completes self it)"
  then have lim: "\<forall>k. max_steps fl = Some k \<longrightarrow> 0 + int (length good) \<le> k" by auto
  obtain w1 where pre: "training_loop ev fl self 0 (good @ Run (Raised OutOfRangeError) s # rest) ?w0
                 = training_loop ev fl self (0 + int (length good)) (Run (Raised OutOfRangeError) s # rest) w1"
      and ops1: "train_ops_run w1 = train_ops_run ?w0 + length good"
    using training_loop_completing [of good self fl 0 ev "Run (Raised OutOfRangeError) s # rest" ?w0] a lim
    by blast
  let ?w3 = "w1\<lparr>logging := logging w1 @ [(INFO, Done_training_epoch_limit)]\<rparr>"
  have "training_loop ev fl self (0 + int (length good)) (Run (Raised OutOfRangeError) s # rest) w1
      = (Raise OutOfRangeError, w1)"
    by (simp add: train_step_Raised)
  with pre have "run_training_loop ev fl self (good @ Run (Raised OutOfRangeError) s # rest) w
      = (Return epoch_limit_reached, ?w3)"
    by (simp add: run_training_loop_unfold Let_def)
  moreover have "train_ops_run ?w3 = train_ops_run w + length good"
    using ops1 by simp
  moreover have "last (logging ?w3) = (INFO, Done_training_epoch_limit)" by simp
  ultimately show "\<exists>w'. run_training_loop ev fl self (good @ Run (Raised OutOfRangeError) s # rest) w
                 = (Return epoch_limit_reached, w')
            \<and> train_ops_run w' = train_ops_run w + length good
            \<and> last (logging w') = (INFO, Done_training_epoch_limit)"
    by blast
next
  let ?w0 = "w\<lparr>logging := logging w @ [(INFO, Entering_training_loop)]\<rparr>"
  assume a: "(\<forall>k. max_steps fl = Some k \<longrightarrow> int (length good) \<le> k)
      \<and> (\<forall>it \<in> set good. completes self it) \<and> e \<noteq> OutOfRangeError"
  then have lim: "\<forall>k. max_steps fl = Some k \<longrightarrow> 0 + int (length good) \<le> k" by auto
  obtain w1 where pre: "training_loop ev fl self 0 (good @ Run (Raised e) s # rest) ?w0
                 = training_loop ev fl self (0 + int (length good)) (Run (Raised e) s # rest) w1"
    using training_loop_completing [of good self fl 0 ev "Run (Raised e) s # rest" ?w0] a lim
    by blast
  have "training_loop ev fl self (0 + int (length good)) (Run (Raised e) s # rest) w1
      = (Raise e, w1)"
    by (simp add: train_step_Raised)
  with pre a have "run_training_loop ev fl self (good @ Run (Raised e) s # rest) w = (Raise e, w1)"
    by (simp add: run_training_loop_unfold Let_def)
  then show "\<exists>w'. run_training_loop ev fl self (good @ Run (Raised e) s # rest) w = (Raise e, w')"
    by blast
next
  show "fst (run_training_loop ev fl self script w) \<noteq> Raise OutOfRangeError"
    by (simp add: run_training_loop_unfold Let_def)
qed

theorem training_loop_ends_cleanly_witness:
  "fst (run_training_loop sample_eval_util (default_FLAGS\<lparr>max_steps := Some 1\<rparr>) sample_worker
          [Run (Fetched 1 (1 / 2) [[1]] [[1]]) 2, Run (Fetched 2 (1 / 2) [[1]] [[1]]) 2,
           Run (Fetched 3 (1 / 2) [[1]] [[1]]) 2] (sample_world [])) = Return max_steps_reached
   \<and> train_ops_run (snd (run_training_loop sample_eval_util (default_FLAGS\<lparr>max_steps := Some 1\<rparr>)
          sample_worker
          [Run (Fetched 1 (1 / 2) [[1]] [[1]]) 2, Run (Fetched 2 (1 / 2) [[1]] [[1]]) 2,
           Run (Fetched 3 (1 / 2) [[1]] [[1]]) 2] (sample_world []))) = 2
   \<and> fst (run_training_loop sample_eval_util (default_FLAGS\<lparr>max_steps := Some 1\<rparr>) sample_worker
          [Run (Fetched 1 (1 / 2) [[1]] [[1]]) 2, Run (Raised OutOfRangeError) 2,
           Run (Fetched 3 (1 / 2) [[1]] [[1]]) 2] (sample_world [])) = Return epoch_limit_reached
   \<and> fst (run_training_loop sample_eval_util (default_FLAGS\<lparr>max_steps := Some 1\<rparr>) sample_worker
          [Run (Fetched 1 (1 / 2) [[1]] [[1]]) 2, Run (Raised (CollaboratorError ''InternalError'')) 2,
           Run (Fetched 3 (1 / 2) [[1]] [[1]]) 2] (sample_world []))
       = Raise (CollaboratorError ''InternalError'')"
proof -
  let ?fl = "default_FLAGS\<lparr>max_steps := Some 1\<rparr>"
  let ?A = "Run (Fetched 1 (1 / 2) [[1]] [[1]]) 2"
  let ?B = "Run (Fetched 2 (1 / 2) [[1]] [[1]]) 2"
  let ?C = "Run (Fetched 3 (1 / 2) [[1]] [[1]]) 2"
  note t = training_loop_ends_cleanly [where fl = ?fl and limit = 1 and good = "[?A]"
      and self = sample_worker and it = ?B and ev = sample_eval_util and rest = "[?C]"
      and w = "sample_world []" and s = 2 and e = "CollaboratorError ''InternalError''"]
  have h1: "max_steps ?fl = Some 1 \<and> (0::int) \<le> 1 \<and> length [?A] = nat 1
      \<and> (\<forall>it \<in> set [?A]. completes sample_worker it) \<and> completes sample_worker ?B"
    by (simp add: sample_worker_def)
  have h2: "(\<forall>k. max_steps ?fl = Some k \<longrightarrow> int (length [?A]) \<le> k)
      \<and> (\<forall>it \<in> set [?A]. completes sample_worker it)"
    by (simp add: sample_worker_def)
  have h3: "(\<forall>k. max_steps ?fl = Some k \<longrightarrow> int (length [?A]) \<le> k)
      \<and> (\<forall>it \<in> set [?A]. completes sample_worker it)
      \<and> CollaboratorError ''InternalError'' \<noteq> OutOfRangeError"
    by (simp add: sample_worker_def)
  from t h1 obtain w1 where
      r1: "run_training_loop sample_eval_util ?fl sample_worker ([?A] @ ?B # [?C]) (sample_world [])
             = (Return max_steps_reached, w1)"
      and o1: "train_ops_run w1 = train_ops_run (sample_world []) + nat 1 + 1"
    by blast
  from t h2 obtain w2 where
      r2: "run_training_loop sample_eval_util ?fl sample_worker
             ([?A] @ Run (Raised OutOfRangeError) 2 # [?C]) (sample_world [])
             = (Return epoch_limit_reached, w2)"
    by blast
  from t h3 obtain w3 where
      r3: "run_training_loop sample_eval_util ?fl sample_worker
             ([?A] @ Run (Raised (CollaboratorError ''InternalError'')) 2 # [?C]) (sample_world [])
             = (Raise (CollaboratorError ''InternalError''), w3)"
    by blast
  show ?thesis
    using r1 o1 r2 r3 by (simp add: sample_world_def)
qed

section \<open>Start-up: failures before the loop\<close>

lemma quiet_ret: "quiet (ret x)"
  by (simp add: quiet_def ret_def)

lemma quiet_lift: "quiet (lift r)"
  by (cases r) (simp_all add: quiet_def lift_def)

lemma quiet_check: "quiet (check r)"
  by (cases r) (simp_all add: quiet_def check_def)

lemma quiet_logging_info: "quiet (logging_info msg)"
  by (simp add: quiet_def logging_info_def)

lemma quiet_seq:
  assumes "quiet m" and "\<And>x. quiet (f x)"
  shows "quiet (seq m f)"
proof -
  have "fst (seq m f w) \<noteq> Running
          \<and> train_ops_run (snd (seq m f w)) = train_ops_run w
          \<and> files (snd (seq m f w)) = files w" for w
  proof (cases "m w")
    case (Pair o1 w1)
    have m: "o1 \<noteq> Running" "train_ops_run w1 = train_ops_run w" "files w1 = files w"
      using assms(1) Pair by (auto simp: quiet_def dest: spec [of _ w])
    show ?thesis
    proof (cases o1)
      case (Return x)
      have "fst (f x w1) \<noteq> Running \<and> train_ops_run (snd (f x w1)) = train_ops_run w1
          \<and> files (snd (f x w1)) = files w1"
        using assms(2) [of x] by (simp add: quiet_def)
      with Pair Return m show ?thesis by (simp add: seq_def)
    next
      case (Raise e)
      with Pair m show ?thesis by (simp add: seq_def)
    next
      case Running
      with m show ?thesis by simp
    qed
  qed
  then show ?thesis by (simp add: quiet_def)
qed

lemma quiet_start_server_if_distributed: "quiet (start_server_if_distributed tf self)"
  unfolding start_server_if_distributed_def
  by (cases "cluster self") (auto intro!: quiet_seq quiet_ret quiet_lift quiet_logging_info)

lemma quiet_get_latest_checkpoint: "quiet (get_latest_checkpoint tf self start_new_model dir)"
proof (cases start_new_model)
  case True
  then show ?thesis
    by (auto simp: get_latest_checkpoint_def intro!: quiet_seq quiet_ret quiet_logging_info)
next
  case False
  have "quiet (\<lambda>w. let latest = latest_checkpoint tf (files w) dir
                in if latest = None \<or> latest = Some []
                   then seq (logging_info No_checkpoint_file_found) (\<lambda>_. ret None) w
                   else ret latest w)"
    by (auto simp: quiet_def Let_def seq_def logging_info_def ret_def)
  with False show ?thesis by (simp add: get_latest_checkpoint_def)
qed

lemma fails_at_lift: "fails_at (lift (Inl e)) w"
  by (simp add: fails_at_def lift_def)

lemma fails_at_seq_left:
  assumes "fails_at m w"
  shows "fails_at (seq m f) w"
proof -
  obtain e where "fst (m w) = Raise e" and "train_ops_run (snd (m w)) = train_ops_run w"
    using assms by (auto simp: fails_at_def)
  then show ?thesis
    by (cases "m w") (auto simp: fails_at_def seq_def)
qed

lemma fails_at_seq_right:
  assumes "quiet m" and "\<And>x w'. files w' = files w \<Longrightarrow> fails_at (f x) w'"
  shows "fails_at (seq m f) w"
proof (cases "m w")
  case (Pair o1 w1)
  have m: "o1 \<noteq> Running" "train_ops_run w1 = train_ops_run w" "files w1 = files w"
    using assms(1) Pair by (auto simp: quiet_def dest: spec [of _ w])
  show ?thesis
  proof (cases o1)
    case (Return x)
    have "fails_at (f x) w1" using assms(2) m(3) by simp
    with Pair Return m show ?thesis by (auto simp: fails_at_def seq_def)
  next
    case (Raise e)
    with Pair m show ?thesis by (simp add: fails_at_def seq_def)
  next
    case Running
    with m show ?thesis by simp
  qed
qed

lemma get_input_data_tensors_no_files:
  assumes "Glob tf (files w) data_pattern = []"
  shows "get_input_data_tensors tf rd data_pattern w =
           (Raise (IOError (''Unable to find training files. data_pattern='' @ data_pattern)),
            w\<lparr>logging := logging w @ [(INFO, Using_batch_size)]\<rparr>)"
  using assms by (simp add: get_input_data_tensors_def seq_def logging_info_def Let_def)

lemma get_input_data_tensors_fails:
  "Glob tf (files w) data_pattern = [] \<Longrightarrow> fails_at (get_input_data_tensors tf rd data_pattern) w"
  by (simp add: get_input_data_tensors_no_files fails_at_def)

lemma build_graph_fails:
  assumes "Glob tf (files w) (train_data_pattern fl) = []"
  shows "fails_at (build_graph tf fl rd mdl label_loss_fn optimizer_class transformer_class
                     augmenter_class) w"
  unfolding build_graph_def
proof (rule fails_at_seq_right [OF quiet_lift])
  fix x and w' :: "'a world" assume "files w' = files w"
  with assms have "Glob tf (files w') (train_data_pattern fl) = []" by simp
  then show "fails_at (seq (get_input_data_tensors tf rd (train_data_pattern fl))
          (\<lambda>_. check (graph_ops tf rd mdl label_loss_fn x transformer_class augmenter_class))) w'"
    by (intro fails_at_seq_left get_input_data_tensors_fails)
qed

lemma build_model_fails:
  assumes "Glob tf (files w) (train_data_pattern fl) = []"
  shows "fails_at (build_model tf fl reg self) w"
proof -
  have g: "Glob tf (files w') (train_data_pattern fl) = []" if "files w' = files w" for w' :: "'a world"
    using assms that by simp
  show ?thesis
    unfolding build_model_def split_def Let_def
    apply (rule fails_at_seq_right [OF quiet_lift])
    apply (rule fails_at_seq_right [OF quiet_lift])
    apply (rule fails_at_seq_right [OF quiet_lift])
    apply (rule fails_at_seq_right [OF quiet_lift])
    apply (rule fails_at_seq_right [OF quiet_lift])
    apply (rule fails_at_seq_right [OF quiet_lift])
    apply (rule fails_at_seq_right [OF quiet_lift])
    apply (rule fails_at_seq_right [OF quiet_lift])
    apply (rule fails_at_seq_left)
    apply (rule build_graph_fails)
    apply (rule g)
    apply simp
    done
qed

lemma remove_training_directory_frame:
  "fst (remove_training_directory tf self dir w) = Return ()
   \<and> train_ops_run (snd (remove_training_directory tf self dir w)) = train_ops_run w
   \<and> files (snd (remove_training_directory tf self dir w)) = snd (DeleteRecursively tf (files w) dir)"
  by (simp add: remove_training_directory_result)

lemma fails_at_seq_return:
  assumes "m w = (Return x, w1)" and "train_ops_run w1 = train_ops_run w"
    and "fails_at (f x) w1"
  shows "fails_at (seq m f) w"
  using assms by (simp add: fails_at_def seq_def)

lemma resume_decision_files:
  "files (snd (resume_decision tf self start_new_model w)) =
     (if is_master self \<and> start_new_model
      then snd (DeleteRecursively tf (files w) (train_dir self))
      else files w)"
proof -
  have q: "files (snd (get_latest_checkpoint tf self b (train_dir self) w1)) = files w1"
    for w1 :: "'a world" and b
    using quiet_get_latest_checkpoint [of tf self b "train_dir self"]
    by (simp add: quiet_def)
  show ?thesis
    by (simp add: resume_decision_def seq_def remove_training_directory_result ret_def q)
qed

lemma Trainer_run_fails_in_build_model:
  assumes "\<And>w'. files w' = files (snd (resume_decision tf self start_new_model w))
             \<Longrightarrow> fails_at (build_model tf fl reg self) w'"
  shows "fails_at (Trainer_run tf ev fl reg self start_new_model script) w"
proof -
  let ?first = "if is_master self \<and> start_new_model
          then remove_training_directory tf self (train_dir self)
          else ret ()"
  obtain w1 where first: "?first w = (Return (), w1)"
      and ops: "train_ops_run w1 = train_ops_run w"
      and fs: "files w1 = files (snd (resume_decision tf self start_new_model w))"
    by (cases "is_master self \<and> start_new_model")
       (simp_all add: remove_training_directory_result resume_decision_files ret_def)
  have g: "fails_at (build_model tf fl reg self) w'" if "files w' = files w1" for w' :: "'a world"
    using assms fs that by simp
  show ?thesis
    unfolding Trainer_run_def split_def
    apply (rule fails_at_seq_return [where m = ?first and w = w and x = "()" and ?w1.0 = w1,
                 OF first ops])
    apply (rule fails_at_seq_right [OF quiet_start_server_if_distributed])
    apply (rule fails_at_seq_right [OF quiet_get_latest_checkpoint])
    apply (rule fails_at_seq_left)
    apply (rule g)
    apply simp
    done
qed

lemmas run_defs = Trainer_run_def seq_def ret_def lift_def check_def logging_info_def
  logging_error_def remove_training_directory_def start_server_if_distributed_def
  get_latest_checkpoint_def build_model_def build_graph_def get_input_data_tensors_def
  find_class_by_name_def getattr_def Let_def

lemmas sample_defs = sample_collaborators_def sample_registry_def sample_master_def
  sample_world_def default_FLAGS_def sample_eval_util_def

text \<open>
  C7. When the pattern of the training data matches no file, \<^verbatim>\<open>get_input_data_tensors\<close>
  raises \<^verbatim>\<open>IOError\<close>; and when it matches no file once the resume decision is taken, the
  run of the trainer ends with an exception and no training operation has run, whatever
  the environment would have answered in the loop.
\<close>

theorem no_training_files_aborts:
  "(Glob tf (files w) data_pattern = [] \<longrightarrow>
      get_input_data_tensors tf rd data_pattern w =
        (Raise (IOError (''Unable to find training files. data_pattern='' @ data_pattern)),
         w\<lparr>logging := logging w @ [(INFO, Using_batch_size)]\<rparr>))
   \<and> (Glob tf (files (snd (resume_decision tf self start_new_model w))) (train_data_pattern fl) = []
      \<longrightarrow> (\<exists>e w'. Trainer_run tf ev fl reg self start_new_model script w = (Raise e, w')
                  \<and> train_ops_run w' = train_ops_run w))"
proof (intro conjI impI)
  assume "Glob tf (files w) data_pattern = []"
  then show "get_input_data_tensors tf rd data_pattern w =
        (Raise (IOError (''Unable to find training files. data_pattern='' @ data_pattern)),
         w\<lparr>logging := logging w @ [(INFO, Using_batch_size)]\<rparr>)"
    by (rule get_input_data_tensors_no_files)
next
  assume "Glob tf (files (snd (resume_decision tf self start_new_model w))) (train_data_pattern fl) = []"
  then have "fails_at (Trainer_run tf ev fl reg self start_new_model script) w"
    by (intro Trainer_run_fails_in_build_model build_model_fails) simp
  then show "\<exists>e w'. Trainer_run tf ev fl reg self start_new_model script w = (Raise e, w')
                  \<and> train_ops_run w' = train_ops_run w"
    by (cases "Trainer_run tf ev fl reg self start_new_model script w") (auto simp: fails_at_def)
qed

theorem no_training_files_aborts_witness:
  "fst (Trainer_run sample_collaborators sample_eval_util
     (default_FLAGS\<lparr>train_data_pattern := ''/data/train-*''\<rparr>) sample_registry sample_master True
     [Run (Fetched 1 (1 / 2) [[1]] [[1]]) 2, Stop] (sample_world [''/tmp/yt8m_model/'']))
     = Raise (IOError ''Unable to find training files. data_pattern=/data/train-*'')
   \<and> train_ops_run (snd (Trainer_run sample_collaborators sample_eval_util
     (default_FLAGS\<lparr>train_data_pattern := ''/data/train-*''\<rparr>) sample_registry sample_master True
     [Run (Fetched 1 (1 / 2) [[1]] [[1]]) 2, Stop] (sample_world [''/tmp/yt8m_model/''])))
     = 0"
proof -
  let ?fl = "default_FLAGS\<lparr>train_data_pattern := ''/data/train-*''\<rparr>"
  let ?w = "sample_world [''/tmp/yt8m_model/'']"
  let ?script = "[Run (Fetched 1 (1 / 2) [[1]] [[1]]) 2, Stop]"
  have h: "Glob sample_collaborators
             (files (snd (resume_decision sample_collaborators sample_master True ?w)))
             (train_data_pattern ?fl) = []"
    by (simp add: resume_decision_files sample_defs)
  obtain e w' where
      r: "Trainer_run sample_collaborators sample_eval_util ?fl sample_registry sample_master True
            ?script ?w = (Raise e, w')"
      and ops: "train_ops_run w' = train_ops_run ?w"
    using no_training_files_aborts [where tf = sample_collaborators and self = sample_master
        and start_new_model = True and w = ?w and fl = ?fl and ev = sample_eval_util
        and reg = sample_registry and script = ?script] h
    by blast
  have v: "Trainer_run sample_collaborators sample_eval_util ?fl sample_registry sample_master True
            ?script ?w =
   (Raise (IOError ''Unable to find training files. data_pattern=/data/train-*''),
    \<lparr> files = [],
      logging = [(INFO, Removing_existing_train_directory),
                 (INFO, Flag_start_new_model_is_set), (INFO, Using_batch_size)],
      summary_writer = [], train_ops_run = 0 \<rparr>)"
    by (simp add: run_defs sample_defs)
  have "e = IOError ''Unable to find training files. data_pattern=/data/train-*''"
    using r v by simp
  with r ops show ?thesis by (simp add: sample_world_def)
qed

section \<open>Class names that resolve to the wrong kind of class\<close>

lemma build_model_unresolved:
  assumes "find_class_by_name (model fl) [frame_level_models reg, video_level_models reg] = Inl e
     \<or> find_class_by_name (label_loss fl) [losses reg] = Inl e
     \<or> find_class_by_name (optimizer fl) [tf_train reg] = Inl e
     \<or> find_class_by_name (feature_transformer fl) [feature_transform reg] = Inl e
     \<or> find_class_by_name (data_augmenter fl) [data_augmentation reg] = Inl e"
  shows "fails_at (build_model tf fl reg self) w"
proof -
  consider
      (1) "find_class_by_name (model fl) [frame_level_models reg, video_level_models reg] = Inl e"
    | (2) "find_class_by_name (label_loss fl) [losses reg] = Inl e"
    | (3) "find_class_by_name (optimizer fl) [tf_train reg] = Inl e"
    | (4) "find_class_by_name (feature_transformer fl) [feature_transform reg] = Inl e"
    | (5) "find_class_by_name (data_augmenter fl) [data_augmentation reg] = Inl e"
    using assms by blast
  then show ?thesis
  proof cases
    case 1
    show ?thesis
      unfolding build_model_def split_def Let_def 1
      apply (rule fails_at_seq_right [OF quiet_lift])
      apply (rule fails_at_seq_left)
      apply (rule fails_at_lift)
      done
  next
    case 2
    show ?thesis
      unfolding build_model_def split_def Let_def 2
      apply (rule fails_at_seq_right [OF quiet_lift])
      apply (rule fails_at_seq_right [OF quiet_lift])
      apply (rule fails_at_seq_right [OF quiet_lift])
      apply (rule fails_at_seq_left)
      apply (rule fails_at_lift)
      done
  next
    case 3
    show ?thesis
      unfolding build_model_def split_def Let_def 3
      apply (rule fails_at_seq_right [OF quiet_lift])
      apply (rule fails_at_seq_right [OF quiet_lift])
      apply (rule fails_at_seq_right [OF quiet_lift])
      apply (rule fails_at_seq_right [OF quiet_lift])
      apply (rule fails_at_seq_right [OF quiet_lift])
      apply (rule fails_at_seq_left)
      apply (rule fails_at_lift)
      done
  next
    case 4
    show ?thesis
      unfolding build_model_def split_def Let_def 4
      apply (rule fails_at_seq_right [OF quiet_lift])
      apply (rule fails_at_seq_right [OF quiet_lift])
      apply (rule fails_at_seq_right [OF quiet_lift])
      apply (rule fails_at_seq_right [OF quiet_lift])
      apply (rule fails_at_seq_right [OF quiet_lift])
      apply (rule fails_at_seq_right [OF quiet_lift])
      apply (rule fails_at_seq_left)
      apply (rule fails_at_lift)
      done
  next
    case 5
    show ?thesis
      unfolding build_model_def split_def Let_def 5
      apply (rule fails_at_seq_right [OF quiet_lift])
      apply (rule fails_at_seq_right [OF quiet_lift])
      apply (rule fails_at_seq_right [OF quiet_lift])
      apply (rule fails_at_seq_right [OF quiet_lift])
      apply (rule fails_at_seq_right [OF quiet_lift])
      apply (rule fails_at_seq_right [OF quiet_lift])
      apply (rule fails_at_seq_right [OF quiet_lift])
      apply (rule fails_at_seq_left)
      apply (rule fails_at_lift)
      done
  qed
qed

text \<open>
  A name that no searched module resolves makes \<^verbatim>\<open>find_class_by_name\<close> raise
  \<^verbatim>\<open>StopIteration\<close>, and the run of the trainer ends with an exception before any training
  operation.
\<close>

lemma find_class_by_name_unresolved:
  "\<forall>m \<in> set modules. \<not> truthy (getattr m name) \<Longrightarrow>
   find_class_by_name name modules = Inl StopIteration"
  unfolding find_class_by_name_def
  by (induction modules) simp_all

lemma unresolved_class_aborts:
  assumes "find_class_by_name (model fl) [frame_level_models reg, video_level_models reg] = Inl e
     \<or> find_class_by_name (label_loss fl) [losses reg] = Inl e
     \<or> find_class_by_name (optimizer fl) [tf_train reg] = Inl e
     \<or> find_class_by_name (feature_transformer fl) [feature_transform reg] = Inl e
     \<or> find_class_by_name (data_augmenter fl) [data_augmentation reg] = Inl e"
  shows "\<exists>e' w'. Trainer_run tf ev fl reg self start_new_model script w = (Raise e', w')
           \<and> train_ops_run w' = train_ops_run w"
proof -
  have "fails_at (build_model tf fl reg self) w'" for w' :: "'a world"
    using assms by (rule build_model_unresolved)
  then have "fails_at (Trainer_run tf ev fl reg self start_new_model script) w"
    by (intro Trainer_run_fails_in_build_model)
  then show ?thesis
    by (cases "Trainer_run tf ev fl reg self start_new_model script w") (auto simp: fails_at_def)
qed

text \<open>
  C8. The claim: a name that resolves to a class which does not inherit from the expected
  superclass makes the program fail at start-up. \<^verbatim>\<open>validate_class_name\<close> would reject such a
  class, but nothing calls it: \<^verbatim>\<open>build_model\<close> takes what \<^verbatim>\<open>find_class_by_name\<close> returns.
  With the loss name \<open>Helper\<close>, a class of the module \<open>losses\<close> that does not inherit from
  \<open>BaseLoss\<close>, and collaborators that accept it, the trainer starts and runs a training
  operation.
\<close>

theorem mismatched_class_is_accepted:
  "validate_class_name ''Helper'' ''loss'' [losses sample_registry] ''BaseLoss''
     = Inl (FlagsError ''loss Helper does not inherit from BaseLoss'')
   \<and> find_class_by_name ''Helper'' [losses sample_registry]
     = Inr (PyClass ''Helper'' [''Helper'', ''object''])
   \<and> Trainer_run sample_collaborators sample_eval_util
       (default_FLAGS\<lparr>label_loss := ''Helper'', train_data_pattern := ''/data/train.tfrecord''\<rparr>)
       sample_registry sample_master False
       [Run (Fetched 1 (1 / 2) [[1]] [[1]]) 2, Stop] (sample_world [''/data/train.tfrecord'']) =
     (Return should_stop,
      \<lparr> files = [''/data/train.tfrecord''],
        logging =
          [(INFO, No_checkpoint_file_found), (INFO, Using_batch_size),
           (INFO, Number_of_training_files 1), (INFO, Built_graph),
           (INFO, Starting_managed_session), (INFO, Entering_training_loop),
           (INFO, Training_step
              \<lparr> report_global_step = 1, report_hit_at_one = 1, report_perr = 1 / 2,
                report_gap = 3 / 4, report_recall_at_n = 100, report_recall = ''N/A'',
                report_loss = 1 / 2 \<rparr>),
           (INFO, Exited_training_loop)],
        summary_writer =
          [(Training_Hit1, 1, 1), (Training_Perr, 1 / 2, 1),
           (Training_GAP, 3 / 4, 1), (Examples_Second, 1 / 2, 1)],
        train_ops_run = 1 \<rparr>)"
proof (intro conjI)
  show "validate_class_name ''Helper'' ''loss'' [losses sample_registry] ''BaseLoss''
     = Inl (FlagsError ''loss Helper does not inherit from BaseLoss'')"
    by (simp add: validate_class_name_def getattr_def sample_registry_def)
  show "find_class_by_name ''Helper'' [losses sample_registry]
     = Inr (PyClass ''Helper'' [''Helper'', ''object''])"
    by (simp add: find_class_by_name_def getattr_def sample_registry_def)
  show "Trainer_run sample_collaborators sample_eval_util
       (default_FLAGS\<lparr>label_loss := ''Helper'', train_data_pattern := ''/data/train.tfrecord''\<rparr>)
       sample_registry sample_master False
       [Run (Fetched 1 (1 / 2) [[1]] [[1]]) 2, Stop] (sample_world [''/data/train.tfrecord'']) =
     (Return should_stop,
      \<lparr> files = [''/data/train.tfrecord''],
        logging =
          [(INFO, No_checkpoint_file_found), (INFO, Using_batch_size),
           (INFO, Number_of_training_files 1), (INFO, Built_graph),
           (INFO, Starting_managed_session), (INFO, Entering_training_loop),
           (INFO, Training_step
              \<lparr> report_global_step = 1, report_hit_at_one = 1, report_perr = 1 / 2,
                report_gap = 3 / 4, report_recall_at_n = 100, report_recall = ''N/A'',
                report_loss = 1 / 2 \<rparr>),
           (INFO, Exited_training_loop)],
        summary_writer =
          [(Training_Hit1, 1, 1), (Training_Perr, 1 / 2, 1),
           (Training_GAP, 3 / 4, 1), (Examples_Second, 1 / 2, 1)],
        train_ops_run = 1 \<rparr>)"
    by (simp add: run_defs run_training_loop_unfold train_step_def add_summary_def sample_defs)
qed

end
